theory Spec2Isabelle
  imports Main "HOL-Library.Multiset"
begin

section \<open>Data model (internal/config/models.go, internal/config/job.go)\<close>

text \<open>
  Go structs are records. Several structs of the source share field names (\<open>Shared\<close>,
  \<open>AppID\<close>, \<open>Action\<close>, \<open>BaseRoles\<close>); the fields of \<open>RepositoryRequest\<close> carry the
  prefix \<open>req\<close>, the role lists of \<open>Config\<close> the prefix \<open>cfg\<close>, and the action of a
  \<open>Job\<close> is \<open>jobAction\<close>; every other field keeps its name. Go strings are byte sequences, here \<open>string\<close>; Go's \<open>int\<close>
  is \<open>int\<close>: every counter of the program is the length of a slice or a count
  bounded by one, far below \<open>2^63\<close>.
\<close>

record RepositoryRequest =
  reqOrganizationName :: string
  reqLdapUsername :: string
  reqPackageManager :: string
  reqShared :: bool
  reqAppID :: string

record OperationConfig =
  Action :: string
  LdapUsername :: string
  OrganizationID :: string
  RemoteURL :: string
  ExtraRoles :: "string list"
  BaseRoles :: "string list"
  RepositoryName :: string
  PrivilegeName :: string
  RoleName :: string
  PackageManager :: string
  Shared :: bool
  AppID :: string

record FailedRequest =
  Request :: RepositoryRequest
  Reason :: string

text \<open>
  Of \<open>PackageManager\<close> and \<open>APIEndpoint\<close> the untyped JSON maps (\<open>DefaultConfig\<close>,
  \<open>FormatSpecificConfig\<close>, \<open>ExtraFields\<close>) are left out: only the repository-manager
  client reads them.
\<close>

record APIEndpoint =
  Path :: string

record PackageManagerConfig =
  DefaultURL :: string
  PrivilegeFormat :: string
  APIEndpointOf :: "APIEndpoint option"

record Config =
  NexusURL :: string
  NexusUsername :: string
  NexusPassword :: string
  cfgBaseRoles :: "string list"
  cfgExtraRoles :: "string list"
  IQServerURL :: string
  IQServerUsername :: string
  IQServerPassword :: string
  APIHost :: string
  Port :: int
  APIToken :: string
  Orgs :: "string \<rightharpoonup> string"
  PackageManagers :: "string \<rightharpoonup> PackageManagerConfig"

datatype JobStatus = JobStatusPending | JobStatusProcessing | JobStatusCompleted | JobStatusFailed

type_synonym Time = nat

record Job =
  ID :: string
  Status :: JobStatus
  jobAction :: string
  CreatedAt :: Time
  UpdatedAt :: Time
  TotalRequests :: int
  SuccessfulOperations :: int
  FailedOperations :: int
  NotProcessedOperations :: int
  FailedRequests :: "FailedRequest list"
  Message :: string

subsection \<open>Errors and formatting\<close>

text \<open>
  A Go \<open>error\<close> is an \<open>HTTPError\<close> of the client (status code and body), an error made
  from a message, or an error wrapped by \<open>fmt.Errorf\<close> with \<open>%w\<close> under a context
  message. A function returning \<open>error\<close> returns \<open>error option\<close> (\<open>None\<close> is nil); one
  returning \<open>(*T, error)\<close> returns \<open>error + T option\<close>.
\<close>

datatype error = HTTPError int string | Failure string | Wrap string error

text \<open>\<open>errors.As(err, &httpErr)\<close> walks the chain of wrapped errors.\<close>

fun as_HTTPError :: "error \<Rightarrow> (int \<times> string) option" where
  "as_HTTPError (HTTPError code body) = Some (code, body)"
| "as_HTTPError (Failure msg) = None"
| "as_HTTPError (Wrap msg e) = as_HTTPError e"

definition StatusNotFound :: int where
  "StatusNotFound = 404"

definition is_not_found :: "error \<Rightarrow> bool" where
  "is_not_found err = (case as_HTTPError err of None \<Rightarrow> False | Some (code, body) \<Rightarrow> code = StatusNotFound)"

text \<open>The verb \<open>%d\<close> of \<open>fmt.Sprintf\<close>, and \<open>'%s'\<close>.\<close>

fun digits :: "nat \<Rightarrow> string" where
  "digits n = (if n < 10 then [''0123456789'' ! n]
               else digits (n div 10) @ [''0123456789'' ! (n mod 10)])"

declare digits.simps [simp del]

definition itoa :: "int \<Rightarrow> string" where
  "itoa i = (if i < 0 then CHR ''-'' # digits (nat (- i)) else digits (nat i))"

definition quoted :: "string \<Rightarrow> string" where
  "quoted s = [CHR 0x27] @ s @ [CHR 0x27]"

section \<open>Job Store (internal/config/job.go)\<close>

text \<open>
  The store is the map from job ids to jobs; the mutex only serialises the operations, each
  of which is one function here. \<open>time.Now()\<close> is the parameter \<open>now\<close>. \<open>CreateJob\<close> and
  \<open>GetJob\<close> return a pointer to the stored job, which is the entry of the map.
\<close>

type_synonym JobStore = "string \<rightharpoonup> Job"

definition NewJobStore :: JobStore where
  "NewJobStore = Map.empty"

definition CreateJob :: "Time \<Rightarrow> JobStore \<Rightarrow> string \<Rightarrow> string \<Rightarrow> int \<Rightarrow> JobStore" where
  "CreateJob now js id' action totalRequests =
     js(id' \<mapsto> \<lparr>ID = id', Status = JobStatusPending, jobAction = action,
                 CreatedAt = now, UpdatedAt = now,
                 TotalRequests = totalRequests, SuccessfulOperations = 0,
                 FailedOperations = 0, NotProcessedOperations = totalRequests,
                 FailedRequests = [], Message = ''Job queued''\<rparr>)"

definition GetJob :: "JobStore \<Rightarrow> string \<Rightarrow> Job option" where
  "GetJob js id' = js id'"

definition UpdateJob :: "Time \<Rightarrow> JobStore \<Rightarrow> string \<Rightarrow> (Job \<Rightarrow> Job) \<Rightarrow> error + JobStore" where
  "UpdateJob now js id' updateFn =
     (case js id' of
        None \<Rightarrow> Inl (Failure (''job '' @ id' @ '' not found''))
      | Some job \<Rightarrow> Inr (js(id' \<mapsto> (updateFn job)\<lparr>UpdatedAt := now\<rparr>)))"

section \<open>Job progress tracker (internal/service/progress\_tracker.go)\<close>

text \<open>
  The tracker holds the store and a job id. Each method discards the error of \<open>UpdateJob\<close>
  (\<open>_ = ...\<close>): on an unknown id the store is left as it was.
\<close>

definition discard_error :: "JobStore \<Rightarrow> error + JobStore \<Rightarrow> JobStore" where
  "discard_error js r = (case r of Inl err \<Rightarrow> js | Inr js' \<Rightarrow> js')"

definition SetProcessing :: "Time \<Rightarrow> JobStore \<Rightarrow> string \<Rightarrow> JobStore" where
  "SetProcessing now js jobID =
     discard_error js (UpdateJob now js jobID
       (\<lambda>job. job\<lparr>Status := JobStatusProcessing, Message := ''Processing requests''\<rparr>))"

definition finalize_update ::
  "int \<Rightarrow> int \<Rightarrow> int \<Rightarrow> int \<Rightarrow> FailedRequest list \<Rightarrow> Job \<Rightarrow> Job" where
  "finalize_update successful failed notProcessed total' failedRequests job =
     (let job = job\<lparr>SuccessfulOperations := successful, FailedOperations := failed,
                     NotProcessedOperations := notProcessed, FailedRequests := failedRequests\<rparr>
      in if failed = 0 then
           job\<lparr>Status := JobStatusCompleted,
               Message := ''Successfully processed all '' @ itoa successful @ '' requests''\<rparr>
         else if successful = 0 then
           job\<lparr>Status := JobStatusFailed,
               Message := ''All '' @ itoa failed @ '' requests failed''\<rparr>
         else
           job\<lparr>Status := JobStatusCompleted,
               Message := ''Processed '' @ itoa successful @ '' of '' @ itoa total' @
                          '' requests with '' @ itoa failed @ '' errors''\<rparr>)"

definition Finalize ::
  "Time \<Rightarrow> JobStore \<Rightarrow> string \<Rightarrow> int \<Rightarrow> int \<Rightarrow> int \<Rightarrow> int \<Rightarrow> FailedRequest list \<Rightarrow> JobStore" where
  "Finalize now js jobID successful failed notProcessed total' failedRequests =
     discard_error js (UpdateJob now js jobID
       (finalize_update successful failed notProcessed total' failedRequests))"

definition MarkFailed :: "Time \<Rightarrow> JobStore \<Rightarrow> string \<Rightarrow> int \<Rightarrow> JobStore" where
  "MarkFailed now js jobID totalRequests =
     discard_error js (UpdateJob now js jobID
       (\<lambda>job. job\<lparr>Status := JobStatusFailed, TotalRequests := totalRequests,
                   FailedOperations := totalRequests, NotProcessedOperations := 0,
                   Message := ''All '' @ itoa totalRequests @ '' requests failed''\<rparr>))"

section \<open>Operation Config Resolver (Config.CreateOpConfig)\<close>

text \<open>
  \<open>strings.ToLower\<close> belongs to Go's standard library, not to this program; the resolver
  takes it as its first argument. The struct literal of the source sets ten fields:
  \<open>Shared\<close> and \<open>AppID\<close> are not among them and keep Go's zero values.
\<close>

definition CreateOpConfig ::
  "(string \<Rightarrow> string) \<Rightarrow> Config \<Rightarrow> RepositoryRequest \<Rightarrow> string \<Rightarrow> error + OperationConfig" where
  "CreateOpConfig ToLower c r action =
     (case Orgs c (reqOrganizationName r) of
        None \<Rightarrow> Inl (Failure (''organization '' @ quoted (reqOrganizationName r) @ '' not found''))
      | Some orgID \<Rightarrow>
          (case PackageManagers c (reqPackageManager r) of
             None \<Rightarrow> Inl (Failure (''package manager '' @ quoted (reqPackageManager r) @ '' not found''))
           | Some manager \<Rightarrow>
               (let remoteURL = DefaultURL manager;
                    suffix = (if reqShared r then ''shared'' else reqAppID r);
                    repoName = ToLower (reqPackageManager r) @ ''-release-'' @ suffix;
                    roleName = (if reqShared r then ''repositories.share'' else reqLdapUsername r)
                in Inr \<lparr>Action = action,
                        LdapUsername = reqLdapUsername r,
                        OrganizationID = orgID,
                        RemoteURL = remoteURL,
                        ExtraRoles = cfgExtraRoles c,
                        BaseRoles = cfgBaseRoles c,
                        RepositoryName = repoName,
                        PrivilegeName = repoName,
                        RoleName = roleName,
                        PackageManager = reqPackageManager r,
                        Shared = False,
                        AppID = []\<rparr>)))"

text \<open>Lower-casing of ASCII letters, on which \<open>strings.ToLower\<close> agrees for ASCII input.\<close>

definition ascii_lower_char :: "char \<Rightarrow> char" where
  "ascii_lower_char c =
     (case map_of (zip ''ABCDEFGHIJKLMNOPQRSTUVWXYZ'' ''abcdefghijklmnopqrstuvwxyz'') c of
        None \<Rightarrow> c | Some l \<Rightarrow> l)"

definition ascii_ToLower :: "string \<Rightarrow> string" where
  "ascii_ToLower s = map ascii_lower_char s"

section \<open>Batch validation (internal/server/handlers.go)\<close>

definition MethodCreate :: string where
  "MethodCreate = ''create''"

definition MethodDelete :: string where
  "MethodDelete = ''delete''"

record ValidationError =
  veRequest :: RepositoryRequest
  Reasons :: "string list"

record ValidationResult =
  ValidRequests :: "RepositoryRequest list"
  InvalidRequests :: "ValidationError list"

definition reject :: "ValidationResult \<Rightarrow> RepositoryRequest \<Rightarrow> string \<Rightarrow> ValidationResult" where
  "reject vr req reason =
     vr\<lparr>InvalidRequests := InvalidRequests vr @ [\<lparr>veRequest = req, Reasons = [reason]\<rparr>]\<rparr>"

text \<open>
  One iteration of the loop of \<open>validateBatchRequest\<close>: every \<open>continue\<close> of the source is
  a branch that returns the result with the request rejected.
\<close>

definition validate_request :: "string \<Rightarrow> RepositoryRequest \<Rightarrow> ValidationResult \<Rightarrow> ValidationResult" where
  "validate_request action req vr =
     (if action = MethodDelete \<and> reqShared req \<and> reqPackageManager req \<noteq> [] then
        reject vr req ''packageManager must be empty for shared delete operations''
      else if \<not> (action = MethodDelete \<and> reqShared req) \<and> reqPackageManager req = [] then
        reject vr req ''packageManager is required for this operation type''
      else if action = MethodCreate \<and> reqShared req \<and> reqAppID req \<noteq> [] then
        reject vr req ''appid not allowed for shared repos on create''
      else if action \<noteq> MethodCreate \<and> action = MethodDelete \<and> reqShared req \<and> reqAppID req = [] then
        reject vr req ''appid required for shared repos on delete (offboarding)''
      else if \<not> reqShared req \<and> reqAppID req = [] then
        reject vr req ''appid required for non-shared repos''
      else vr\<lparr>ValidRequests := ValidRequests vr @ [req]\<rparr>)"

fun validate_loop :: "string \<Rightarrow> RepositoryRequest list \<Rightarrow> ValidationResult \<Rightarrow> ValidationResult" where
  "validate_loop action [] vr = vr"
| "validate_loop action (req # reqs) vr = validate_loop action reqs (validate_request action req vr)"

definition validateBatchRequest :: "RepositoryRequest list \<Rightarrow> string \<Rightarrow> ValidationResult" where
  "validateBatchRequest batch action =
     validate_loop action batch \<lparr>ValidRequests = [], InvalidRequests = []\<rparr>"

text \<open>The acceptance condition in the words of the specification.\<close>

definition spec_accepts :: "string \<Rightarrow> RepositoryRequest \<Rightarrow> bool" where
  "spec_accepts action req =
     ((if action = MethodDelete \<and> reqShared req
         then reqPackageManager req = [] else reqPackageManager req \<noteq> [])
      \<and> (if action = MethodCreate \<and> reqShared req then reqAppID req = [] else True)
      \<and> (if action = MethodDelete \<and> reqShared req then reqAppID req \<noteq> [] else True)
      \<and> (if \<not> reqShared req then reqAppID req \<noteq> [] else True))"

section \<open>Batch fan-in (internal/server/sync.go)\<close>

text \<open>
  Every worker sends one \<open>batchResult\<close> into the buffered channel; after \<open>wg.Wait()\<close> the
  channel holds one result per valid request, in the order the workers finished. The
  parameter \<open>results\<close> of the model is that content. The outcome of a single operation is
  not computed here: it is what the worker reported.
\<close>

record operationResult =
  Success :: bool
  Error :: string

record batchResult =
  request :: RepositoryRequest
  result :: operationResult

fun fan_in ::
  "batchResult list \<Rightarrow> int \<times> int \<times> FailedRequest list \<Rightarrow> int \<times> int \<times> FailedRequest list" where
  "fan_in [] acc = acc"
| "fan_in (res # rest) (successfulOps, failedOps, failedRequests) =
     (if Success (result res) then fan_in rest (successfulOps + 1, failedOps, failedRequests)
      else fan_in rest (successfulOps, failedOps + 1,
             failedRequests @ [\<lparr>Request = request res, Reason = Error (result res)\<rparr>]))"

text \<open>The background goroutine of \<open>ProcessBatchAsync\<close>, from \<open>SetProcessing\<close> to \<open>Finalize\<close>.\<close>

definition process_batch ::
  "Time \<Rightarrow> Time \<Rightarrow> JobStore \<Rightarrow> string \<Rightarrow> RepositoryRequest list \<Rightarrow> batchResult list \<Rightarrow> JobStore" where
  "process_batch t1 t2 js jobID requests results =
     (let js1 = SetProcessing t1 js jobID
      in case fan_in results (0, 0, []) of
           (successfulOps, failedOps, failedRequests) \<Rightarrow>
             Finalize t2 js1 jobID successfulOps failedOps 0 (int (length requests)) failedRequests)"

text \<open>
  \<open>ProcessBatchAsync\<close>: the job is created with the count of the valid requests, then the
  background goroutine runs. \<open>jobID\<close> is the fresh UUID.
\<close>

definition ProcessBatchAsync ::
  "Time \<Rightarrow> Time \<Rightarrow> Time \<Rightarrow> JobStore \<Rightarrow> string \<Rightarrow> string \<Rightarrow> ValidationResult \<Rightarrow> batchResult list \<Rightarrow> JobStore" where
  "ProcessBatchAsync t0 t1 t2 js jobID action validationResult results =
     (let validCount = int (length (ValidRequests validationResult));
          js0 = CreateJob t0 js jobID action validCount
      in process_batch t1 t2 js0 jobID (ValidRequests validationResult) results)"

section \<open>Role Decision Engine (internal/service/role\_engine.go)\<close>

text \<open>
  The engine is a struct of three string slices. \<open>slices.Contains xs r\<close> is
  \<open>r \<in> set xs\<close>; the deduplication map \<open>finalSet\<close> of the source, whose values
  are empty structs, is a set of strings.
\<close>

record RoleDecisionEngine =
  baseRoles :: "string list"
  extraRoles :: "string list"
  afterRemoval :: "string list"

text \<open>The constructor drops the empty strings of both lists; \<open>afterRemoval\<close> starts nil.\<close>

definition NewRoleDecisionEngine :: "string list \<Rightarrow> string list \<Rightarrow> RoleDecisionEngine" where
  "NewRoleDecisionEngine base extra =
     (let filteredExtra = filter (\<lambda>r. r \<noteq> []) extra;
          filteredBase = filter (\<lambda>r. r \<noteq> []) base
      in \<lparr>baseRoles = filteredBase, extraRoles = filteredExtra, afterRemoval = []\<rparr>)"

definition SetAfterRemovalRoles :: "RoleDecisionEngine \<Rightarrow> string list \<Rightarrow> RoleDecisionEngine" where
  "SetAfterRemovalRoles rde roles = rde\<lparr>afterRemoval := roles\<rparr>"

text \<open>The loop of \<open>HasOtherRoles\<close>: three \<open>continue\<close> guards, then \<open>return true\<close>.\<close>

fun has_other_loop :: "string list \<Rightarrow> string list \<Rightarrow> string list \<Rightarrow> bool" where
  "has_other_loop base extra [] = False"
| "has_other_loop base extra (r # rs) =
     (if r \<in> set base then has_other_loop base extra rs
      else if r = ''repositories.share'' then has_other_loop base extra rs
      else if r \<in> set extra then has_other_loop base extra rs
      else True)"

definition HasOtherRoles :: "RoleDecisionEngine \<Rightarrow> bool" where
  "HasOtherRoles rde = has_other_loop (baseRoles rde) (extraRoles rde) (afterRemoval rde)"

text \<open>
  The two loops of \<open>DecideFinalRoles\<close> thread the pair \<open>(finalSet, finalRoles)\<close>.
\<close>

fun base_loop :: "string list \<Rightarrow> string set \<times> string list \<Rightarrow> string set \<times> string list" where
  "base_loop [] st = st"
| "base_loop (br # brs) (finalSet, finalRoles) =
     (if br \<in> finalSet then base_loop brs (finalSet, finalRoles)
      else base_loop brs (insert br finalSet, finalRoles @ [br]))"

fun remaining_loop ::
  "string list \<Rightarrow> bool \<Rightarrow> string list \<Rightarrow> string set \<times> string list \<Rightarrow> string set \<times> string list" where
  "remaining_loop extra keepExtra [] st = st"
| "remaining_loop extra keepExtra (r # rs) (finalSet, finalRoles) =
     (if r \<in> finalSet then remaining_loop extra keepExtra rs (finalSet, finalRoles)
      else if r \<in> set extra then
        (if keepExtra then remaining_loop extra keepExtra rs (insert r finalSet, finalRoles @ [r])
         else remaining_loop extra keepExtra rs (finalSet, finalRoles))
      else remaining_loop extra keepExtra rs (insert r finalSet, finalRoles @ [r]))"

definition DecideFinalRoles :: "RoleDecisionEngine \<Rightarrow> string list" where
  "DecideFinalRoles rde =
     (let keepExtra = HasOtherRoles rde;
          st = base_loop (baseRoles rde) ({}, [])
      in snd (remaining_loop (extraRoles rde) keepExtra (afterRemoval rde) st))"

definition GetRemovedExtraRoles :: "RoleDecisionEngine \<Rightarrow> string list" where
  "GetRemovedExtraRoles rde =
     (let finalRoles = DecideFinalRoles rde
      in filter (\<lambda>r. r \<notin> set finalRoles) (extraRoles rde))"

subsection \<open>The specification's reading of the final role list\<close>

text \<open>
  \<open>skip_dups\<close> keeps the first occurrence of every element and the order of the list
  (the library's \<open>remdups\<close> keeps the last one).
\<close>

function skip_dups :: "'a list \<Rightarrow> 'a list" where
  "skip_dups [] = []"
| "skip_dups (x # xs) = x # skip_dups (removeAll x xs)"
  by pat_completeness auto
termination
  by (relation "measure length") (auto simp: less_Suc_eq_le length_removeAll_less_eq)

text \<open>
  A role of \<open>afterRemoval\<close> survives into the second part of the result when it is not
  a base role and, if it is an extra role, when the user still has other roles.
\<close>

definition kept_after_removal :: "RoleDecisionEngine \<Rightarrow> string \<Rightarrow> bool" where
  "kept_after_removal rde r =
     (r \<notin> set (baseRoles rde) \<and> (if r \<in> set (extraRoles rde) then HasOtherRoles rde else True))"

definition spec_final_roles :: "RoleDecisionEngine \<Rightarrow> string list" where
  "spec_final_roles rde =
     skip_dups (baseRoles rde) @ skip_dups (filter (kept_after_removal rde) (afterRemoval rde))"

section \<open>Repository-manager client (internal/client)\<close>

text \<open>
  The resources of the client, with the prefix of their type on the field names that
  several structs share. \<open>Attributes\<close> of \<open>Repository\<close> (untyped JSON) is left out.
\<close>

record Repository =
  repo_Name :: string
  repo_Format :: string
  repo_Type :: string
  repo_Url :: string
  repo_Online :: bool

record Privilege =
  priv_Name :: string
  priv_Description :: string
  priv_Actions :: "string list"
  priv_Format :: string
  priv_Repository :: string
  priv_Type :: string

record Role =
  role_ID :: string
  role_Name :: string
  role_Description :: string
  Privileges :: "string list"
  role_Roles :: "string list"

record User =
  UserID :: string
  FirstName :: string
  LastName :: string
  EmailAddress :: string
  Source :: string
  user_Status :: string
  Roles :: "string list"

text \<open>
  The workflows see the repository manager only through the methods of \<open>NexusClient\<close>
  (with \<open>GetRepositories\<close> and \<open>GetPrivileges\<close>, which the deletion workflow calls). The
  server behind it is not modelled: a client is any family of answers, each of which may
  depend on the method's argument and on the calls made so far. A workflow threads the list
  of calls it has issued; that list is what the workflow did to the outside world.
\<close>

datatype call =
    GetRepositoryCall string
  | GetRepositoriesCall
  | CreateProxyRepositoryCall OperationConfig
  | DeleteRepositoryCall string
  | GetPrivilegeCall string
  | GetPrivilegesCall
  | CreatePrivilegeCall OperationConfig
  | DeletePrivilegeCall string
  | GetRoleCall string
  | CreateRoleCall OperationConfig
  | UpdateRoleCall Role
  | DeleteRoleCall string
  | GetUserCall string
  | UpdateUserCall User

type_synonym history = "call list"

record NexusClient =
  nexus_GetRepository :: "history \<Rightarrow> string \<Rightarrow> error + Repository option"
  nexus_GetRepositories :: "history \<Rightarrow> error + Repository list"
  nexus_CreateProxyRepository :: "history \<Rightarrow> OperationConfig \<Rightarrow> error option"
  nexus_DeleteRepository :: "history \<Rightarrow> string \<Rightarrow> error option"
  nexus_GetPrivilege :: "history \<Rightarrow> string \<Rightarrow> error + Privilege option"
  nexus_GetPrivileges :: "history \<Rightarrow> error + Privilege list"
  nexus_CreatePrivilege :: "history \<Rightarrow> OperationConfig \<Rightarrow> error option"
  nexus_DeletePrivilege :: "history \<Rightarrow> string \<Rightarrow> error option"
  nexus_GetRole :: "history \<Rightarrow> string \<Rightarrow> error + Role option"
  nexus_CreateRole :: "history \<Rightarrow> OperationConfig \<Rightarrow> error option"
  nexus_UpdateRole :: "history \<Rightarrow> Role \<Rightarrow> error option"
  nexus_DeleteRole :: "history \<Rightarrow> string \<Rightarrow> error option"
  nexus_GetUser :: "history \<Rightarrow> string \<Rightarrow> error + User option"
  nexus_UpdateUser :: "history \<Rightarrow> User \<Rightarrow> error option"

text \<open>\<open>fmt.Errorf("context: %w", err)\<close> on a non-nil error, nil otherwise.\<close>

definition wrap_error :: "string \<Rightarrow> error option \<Rightarrow> error option" where
  "wrap_error context r = (case r of None \<Rightarrow> None | Some err \<Rightarrow> Some (Wrap context err))"

definition HasSuffix :: "string \<Rightarrow> string \<Rightarrow> bool" where
  "HasSuffix s suffix =
     (length suffix \<le> length s \<and> drop (length s - length suffix) s = suffix)"

section \<open>Deletion workflow (NexusCleaner, DeletionManager)\<close>

definition DeleteRepositoryByName ::
  "NexusClient \<Rightarrow> OperationConfig \<Rightarrow> string \<Rightarrow> history \<Rightarrow> error option \<times> history" where
  "DeleteRepositoryByName nx opConfig name h =
     (wrap_error (''delete repository '' @ quoted name) (nexus_DeleteRepository nx h name),
      h @ [DeleteRepositoryCall name])"


definition DeletePrivilegeByName ::
  "NexusClient \<Rightarrow> OperationConfig \<Rightarrow> string \<Rightarrow> history \<Rightarrow> error option \<times> history" where
  "DeletePrivilegeByName nx opConfig name h =
     (wrap_error (''delete privilege '' @ quoted name) (nexus_DeletePrivilege nx h name),
      h @ [DeletePrivilegeCall name])"


definition CleanupRole ::
  "NexusClient \<Rightarrow> OperationConfig \<Rightarrow> history \<Rightarrow> error option \<times> history" where
  "CleanupRole nx opConfig h =
     (let h1 = h @ [GetRoleCall (RoleName opConfig)]
      in case nexus_GetRole nx h (RoleName opConfig) of
           Inl err \<Rightarrow>
             (Some (Wrap (''cleanup role '' @ quoted (RoleName opConfig) @ '': get role failed'') err), h1)
         | Inr None \<Rightarrow> (None, h1)
         | Inr (Some role) \<Rightarrow>
             (if length (Privileges role) = 0 then
                (wrap_error (''cleanup role '' @ quoted (RoleName opConfig) @ '': delete empty role failed'')
                   (nexus_DeleteRole nx h1 (RoleName opConfig)),
                 h1 @ [DeleteRoleCall (RoleName opConfig)])
              else (None, h1)))"

definition ForceDeleteRole ::
  "NexusClient \<Rightarrow> OperationConfig \<Rightarrow> string \<Rightarrow> history \<Rightarrow> error option \<times> history" where
  "ForceDeleteRole nx opConfig roleName h =
     (case nexus_DeleteRole nx h roleName of
        Some err \<Rightarrow>
          (if is_not_found err then (None, h @ [DeleteRoleCall roleName])
           else (Some (Wrap (''force delete role '' @ quoted roleName) err), h @ [DeleteRoleCall roleName]))
      | None \<Rightarrow> (None, h @ [DeleteRoleCall roleName]))"

definition DisableUserAndResetRoles ::
  "NexusClient \<Rightarrow> OperationConfig \<Rightarrow> history \<Rightarrow> error option \<times> history" where
  "DisableUserAndResetRoles nx opConfig h =
     (let h1 = h @ [GetUserCall (LdapUsername opConfig)]
      in case nexus_GetUser nx h (LdapUsername opConfig) of
           Inl err \<Rightarrow>
             (Some (Wrap (''disable user '' @ quoted (LdapUsername opConfig) @ '': get user failed'') err), h1)
         | Inr None \<Rightarrow>
             (Some (Failure (''user '' @ quoted (LdapUsername opConfig) @ '' not found'')), h1)
         | Inr (Some user) \<Rightarrow>
             (let user = user\<lparr>Roles := BaseRoles opConfig, user_Status := ''disabled''\<rparr>
              in (wrap_error (''disable user '' @ quoted (LdapUsername opConfig) @ '': update failed'')
                    (nexus_UpdateUser nx h1 user),
                  h1 @ [UpdateUserCall user])))"

text \<open>
  The removal loop of \<open>CleanupUserRoles\<close>: the first element equal to the role name is cut
  out and the loop breaks.
\<close>

fun remove_role :: "string \<Rightarrow> string list \<Rightarrow> string list" where
  "remove_role roleName [] = []"
| "remove_role roleName (r # rs) = (if r = roleName then rs else r # remove_role roleName rs)"

text \<open>
  The tail of \<open>CleanupUserRoles\<close>, from the Role Decision Engine to \<open>UpdateUser\<close>; the
  calls of \<open>HasOtherRoles\<close> and \<open>GetRemovedExtraRoles\<close> that follow in the source only
  feed the log.
\<close>

definition decide_and_update ::
  "NexusClient \<Rightarrow> OperationConfig \<Rightarrow> User \<Rightarrow> string list \<Rightarrow> history \<Rightarrow> error option \<times> history" where
  "decide_and_update nx opConfig user roles h =
     (let roleEngine = SetAfterRemovalRoles
                         (NewRoleDecisionEngine (BaseRoles opConfig) (ExtraRoles opConfig)) roles;
          finalRoles = DecideFinalRoles roleEngine;
          user = user\<lparr>Roles := finalRoles\<rparr>
      in (wrap_error (''cleanup user roles for '' @ quoted (LdapUsername opConfig) @ '': update user failed'')
            (nexus_UpdateUser nx h user),
          h @ [UpdateUserCall user]))"

definition CleanupUserRoles ::
  "NexusClient \<Rightarrow> OperationConfig \<Rightarrow> history \<Rightarrow> error option \<times> history" where
  "CleanupUserRoles nx opConfig h =
     (let h1 = h @ [GetUserCall (LdapUsername opConfig)]
      in case nexus_GetUser nx h (LdapUsername opConfig) of
           Inl err \<Rightarrow>
             (Some (Wrap (''cleanup user roles for '' @ quoted (LdapUsername opConfig) @
                          '': get user failed'') err), h1)
         | Inr None \<Rightarrow> (None, h1)
         | Inr (Some user) \<Rightarrow>
             (let roles = Roles user
              in if RoleName opConfig \<noteq> [] then
                   (let h2 = h1 @ [GetRoleCall (RoleName opConfig)]
                    in case nexus_GetRole nx h1 (RoleName opConfig) of
                         Inl err \<Rightarrow>
                           (Some (Wrap (''cleanup user roles for '' @ quoted (LdapUsername opConfig) @
                                        '': get role '' @ quoted (RoleName opConfig) @ '' failed'') err), h2)
                       | Inr roleInfo \<Rightarrow>
                           (let canRemove =
                                  (case roleInfo of
                                     None \<Rightarrow> True
                                   | Some info \<Rightarrow> \<not> 0 < length (Privileges info))
                            in if canRemove
                               then decide_and_update nx opConfig user
                                      (remove_role (RoleName opConfig) roles) h2
                               else decide_and_update nx opConfig user roles h2))
                 else decide_and_update nx opConfig user roles h1))"

text \<open>The two sweeps of the offboarding mode: a failed deletion is logged and the loop goes on.\<close>

fun delete_matching_repositories ::
  "NexusClient \<Rightarrow> OperationConfig \<Rightarrow> string \<Rightarrow> Repository list \<Rightarrow> history \<Rightarrow> history" where
  "delete_matching_repositories nx opConfig suffix [] h = h"
| "delete_matching_repositories nx opConfig suffix (repo # repos) h =
     (if HasSuffix (repo_Name repo) suffix then
        (case DeleteRepositoryByName nx opConfig (repo_Name repo) h of
           (err, h') \<Rightarrow> delete_matching_repositories nx opConfig suffix repos h')
      else delete_matching_repositories nx opConfig suffix repos h)"

fun delete_matching_privileges ::
  "NexusClient \<Rightarrow> OperationConfig \<Rightarrow> string \<Rightarrow> Privilege list \<Rightarrow> history \<Rightarrow> history" where
  "delete_matching_privileges nx opConfig suffix [] h = h"
| "delete_matching_privileges nx opConfig suffix (priv # privs) h =
     (if HasSuffix (priv_Name priv) suffix then
        (case DeletePrivilegeByName nx opConfig (priv_Name priv) h of
           (err, h') \<Rightarrow> delete_matching_privileges nx opConfig suffix privs h')
      else delete_matching_privileges nx opConfig suffix privs h)"

text \<open>The result map of \<open>Run\<close> is the list of its entries.\<close>

type_synonym result_map = "(string \<times> string) list"

definition offboarding_result :: "OperationConfig \<Rightarrow> result_map" where
  "offboarding_result opConfig =
     [(''action'', Action opConfig), (''mode'', ''offboarding''),
      (''ldap_username'', LdapUsername opConfig), (''app_id'', AppID opConfig)]"

definition standard_result :: "OperationConfig \<Rightarrow> result_map" where
  "standard_result opConfig =
     [(''action'', Action opConfig), (''repository_name'', RepositoryName opConfig),
      (''ldap_username'', LdapUsername opConfig), (''organization_id'', OrganizationID opConfig)]"

definition offboarding ::
  "NexusClient \<Rightarrow> OperationConfig \<Rightarrow> history \<Rightarrow> (error + result_map) \<times> history" where
  "offboarding nx opConfig h =
     (case DisableUserAndResetRoles nx opConfig h of
        (Some err, h1) \<Rightarrow> (Inl err, h1)
      | (None, h1) \<Rightarrow>
          (case ForceDeleteRole nx opConfig (LdapUsername opConfig) h1 of
             (roleErr, h2) \<Rightarrow>
               (case nexus_GetRepositories nx h2 of
                  Inl err \<Rightarrow>
                    (Inl (Wrap ''offboarding: failed to list repositories'' err), h2 @ [GetRepositoriesCall])
                | Inr allRepos \<Rightarrow>
                    (let suffix = ''-release-'' @ AppID opConfig;
                         h3 = delete_matching_repositories nx opConfig suffix allRepos
                                (h2 @ [GetRepositoriesCall])
                     in case nexus_GetPrivileges nx h3 of
                          Inl err \<Rightarrow>
                            (Inl (Wrap ''offboarding: failed to list privileges'' err),
                             h3 @ [GetPrivilegesCall])
                        | Inr allPrivs \<Rightarrow>
                            (Inr (offboarding_result opConfig),
                             delete_matching_privileges nx opConfig suffix allPrivs
                               (h3 @ [GetPrivilegesCall]))))))"

text \<open>Sequencing of the standard steps: the first error ends the run.\<close>

definition and_then ::
  "error option \<times> history \<Rightarrow> (history \<Rightarrow> error option \<times> history) \<Rightarrow> error option \<times> history" where
  "and_then r step = (case r of (Some err, h) \<Rightarrow> (Some err, h) | (None, h) \<Rightarrow> step h)"

definition finish ::
  "result_map \<Rightarrow> error option \<times> history \<Rightarrow> (error + result_map) \<times> history" where
  "finish res r = (case r of (Some err, h) \<Rightarrow> (Inl err, h) | (None, h) \<Rightarrow> (Inr res, h))"


section \<open>Creation workflow (NexusCreator, CreationManager)\<close>

definition CreateRepository ::
  "NexusClient \<Rightarrow> OperationConfig \<Rightarrow> history \<Rightarrow> error option \<times> history" where
  "CreateRepository nx opConfig h =
     (let h1 = h @ [GetRepositoryCall (RepositoryName opConfig)]
      in case nexus_GetRepository nx h (RepositoryName opConfig) of
           Inr found \<Rightarrow> (None, h1)
         | Inl lookupErr \<Rightarrow>
             (wrap_error (''create proxy repository '' @ quoted (RepositoryName opConfig) @
                          '' (package_manager='' @ quoted (PackageManager opConfig) @
                          '', remote_url='' @ quoted (RemoteURL opConfig) @ '')'')
                (nexus_CreateProxyRepository nx h1 opConfig),
              h1 @ [CreateProxyRepositoryCall opConfig]))"

definition CreatePrivilege ::
  "NexusClient \<Rightarrow> OperationConfig \<Rightarrow> history \<Rightarrow> error option \<times> history" where
  "CreatePrivilege nx opConfig h =
     (let h1 = h @ [GetPrivilegeCall (PrivilegeName opConfig)]
      in case nexus_GetPrivilege nx h (PrivilegeName opConfig) of
           Inr found \<Rightarrow> (None, h1)
         | Inl lookupErr \<Rightarrow>
             (wrap_error (''create privilege '' @ quoted (PrivilegeName opConfig) @
                          '' for repository '' @ quoted (RepositoryName opConfig))
                (nexus_CreatePrivilege nx h1 opConfig),
              h1 @ [CreatePrivilegeCall opConfig]))"

definition AddPrivilegeToRole ::
  "NexusClient \<Rightarrow> OperationConfig \<Rightarrow> history \<Rightarrow> error option \<times> history" where
  "AddPrivilegeToRole nx opConfig h =
     (let h1 = h @ [GetRoleCall (RoleName opConfig)];
          create = (wrap_error (''add privilege '' @ quoted (PrivilegeName opConfig) @ '' to role '' @
                                quoted (RoleName opConfig) @ '': create role failed'')
                      (nexus_CreateRole nx h1 opConfig),
                    h1 @ [CreateRoleCall opConfig]);
          update = (\<lambda>role.
             if PrivilegeName opConfig \<in> set (Privileges role) then (None, h1)
             else (let role = role\<lparr>Privileges := Privileges role @ [PrivilegeName opConfig]\<rparr>
                   in (wrap_error (''add privilege to role '' @ quoted (RoleName opConfig) @
                                   '': update role failed'')
                         (nexus_UpdateRole nx h1 role),
                       h1 @ [UpdateRoleCall role])))
      in case nexus_GetRole nx h (RoleName opConfig) of
           Inl err \<Rightarrow>
             (if is_not_found err then create
              else (Some (Wrap (''add privilege '' @ quoted (PrivilegeName opConfig) @ '' to role '' @
                                quoted (RoleName opConfig) @ '': get role failed'') err), h1))
         | Inr None \<Rightarrow> create
         | Inr (Some role) \<Rightarrow> update role)"

fun add_missing_roles :: "string list \<Rightarrow> string list \<Rightarrow> string list" where
  "add_missing_roles [] currentRoles = currentRoles"
| "add_missing_roles (r # rs) currentRoles =
     (if r \<noteq> [] \<and> r \<notin> set currentRoles then add_missing_roles rs (currentRoles @ [r])
      else add_missing_roles rs currentRoles)"

definition AddRoleToUser ::
  "NexusClient \<Rightarrow> OperationConfig \<Rightarrow> history \<Rightarrow> error option \<times> history" where
  "AddRoleToUser nx opConfig h =
     (let h1 = h @ [GetUserCall (LdapUsername opConfig)]
      in case nexus_GetUser nx h (LdapUsername opConfig) of
           Inl err \<Rightarrow>
             (Some (Wrap (''add role to user '' @ quoted (LdapUsername opConfig) @ '': get user failed'') err), h1)
         | Inr None \<Rightarrow>
             (Some (Failure (''user '' @ quoted (LdapUsername opConfig) @ '' not found'')), h1)
         | Inr (Some user) \<Rightarrow>
             (let currentRoles = Roles user;
                  currentRoles = (if RoleName opConfig \<notin> set currentRoles
                                  then currentRoles @ [RoleName opConfig] else currentRoles);
                  currentRoles = add_missing_roles (ExtraRoles opConfig) currentRoles;
                  currentRoles = add_missing_roles (BaseRoles opConfig) currentRoles;
                  user = user\<lparr>Roles := currentRoles\<rparr>
              in (wrap_error (''add role to user '' @ quoted (LdapUsername opConfig) @ '': update user failed'')
                    (nexus_UpdateUser nx h1 user),
                  h1 @ [UpdateUserCall user])))"

definition CreationManager_Run ::
  "NexusClient \<Rightarrow> OperationConfig \<Rightarrow> history \<Rightarrow> (error + result_map) \<times> history" where
  "CreationManager_Run nx opConfig h =
     finish (standard_result opConfig)
       (and_then (and_then (and_then (CreateRepository nx opConfig h)
          (CreatePrivilege nx opConfig)) (AddPrivilegeToRole nx opConfig)) (AddRoleToUser nx opConfig))"

section \<open>A scripted client\<close>

text \<open>
  A stand-in for the client in the manner of the mock of the repository's tests: it answers
  from fixed lists of resources, and every call listed in \<open>failing\<close> gets an HTTP 500.
  A missing repository or privilege is an HTTP 404 error; a missing role or user is nil.
\<close>

record Script =
  script_repositories :: "Repository list"
  script_privileges :: "Privilege list"
  script_roles :: "Role list"
  script_users :: "User list"
  failing :: "call list"

definition lookup_answer ::
  "Script \<Rightarrow> call \<Rightarrow> 'a option \<Rightarrow> error + 'a option" where
  "lookup_answer s c found =
     (if c \<in> set (failing s) then Inl (HTTPError 500 ''unavailable'') else Inr found)"

definition strict_answer ::
  "Script \<Rightarrow> call \<Rightarrow> 'a option \<Rightarrow> error + 'a option" where
  "strict_answer s c found =
     (if c \<in> set (failing s) then Inl (HTTPError 500 ''unavailable'')
      else case found of None \<Rightarrow> Inl (Wrap ''get'' (HTTPError 404 ''not found''))
                       | Some x \<Rightarrow> Inr (Some x))"

definition action_answer :: "Script \<Rightarrow> call \<Rightarrow> error option" where
  "action_answer s c = (if c \<in> set (failing s) then Some (HTTPError 500 ''unavailable'') else None)"

definition ScriptedClient :: "Script \<Rightarrow> NexusClient" where
  "ScriptedClient s =
     \<lparr>nexus_GetRepository = (\<lambda>h name. strict_answer s (GetRepositoryCall name)
                               (find (\<lambda>r. repo_Name r = name) (script_repositories s))),
      nexus_GetRepositories = (\<lambda>h. if GetRepositoriesCall \<in> set (failing s)
                                    then Inl (HTTPError 500 ''unavailable'')
                                    else Inr (script_repositories s)),
      nexus_CreateProxyRepository = (\<lambda>h opConfig. action_answer s (CreateProxyRepositoryCall opConfig)),
      nexus_DeleteRepository = (\<lambda>h name. action_answer s (DeleteRepositoryCall name)),
      nexus_GetPrivilege = (\<lambda>h name. strict_answer s (GetPrivilegeCall name)
                               (find (\<lambda>p. priv_Name p = name) (script_privileges s))),
      nexus_GetPrivileges = (\<lambda>h. if GetPrivilegesCall \<in> set (failing s)
                                  then Inl (HTTPError 500 ''unavailable'')
                                  else Inr (script_privileges s)),
      nexus_CreatePrivilege = (\<lambda>h opConfig. action_answer s (CreatePrivilegeCall opConfig)),
      nexus_DeletePrivilege = (\<lambda>h name. action_answer s (DeletePrivilegeCall name)),
      nexus_GetRole = (\<lambda>h name. lookup_answer s (GetRoleCall name)
                               (find (\<lambda>r. role_ID r = name) (script_roles s))),
      nexus_CreateRole = (\<lambda>h opConfig. action_answer s (CreateRoleCall opConfig)),
      nexus_UpdateRole = (\<lambda>h role. action_answer s (UpdateRoleCall role)),
      nexus_DeleteRole = (\<lambda>h name. action_answer s (DeleteRoleCall name)),
      nexus_GetUser = (\<lambda>h name. lookup_answer s (GetUserCall name)
                               (find (\<lambda>u. UserID u = name) (script_users s))),
      nexus_UpdateUser = (\<lambda>h user. action_answer s (UpdateUserCall user))\<rparr>"

section \<open>Notions of the specification\<close>

text \<open>The counting invariant of a job record.\<close>

definition job_balanced :: "Job \<Rightarrow> bool" where
  "job_balanced job =
     (TotalRequests job =
        SuccessfulOperations job + FailedOperations job + NotProcessedOperations job)"

text \<open>Every job that \<open>GetJob\<close> can return satisfies the invariant.\<close>

definition all_balanced :: "JobStore \<Rightarrow> bool" where
  "all_balanced js = (\<forall>i job. GetJob js i = Some job \<longrightarrow> job_balanced job)"

text \<open>The \<open>FailedRequest\<close> record that the fan-in appends for a failed result.\<close>

definition failed_request_of :: "batchResult \<Rightarrow> FailedRequest" where
  "failed_request_of res = \<lparr>Request = request res, Reason = Error (result res)\<rparr>"

definition succeeded :: "batchResult \<Rightarrow> bool" where
  "succeeded res = Success (result res)"

text \<open>
  A rejection of a shared delete request that carries a package manager gives the reason
  that names \<open>packageManager\<close>.
\<close>

definition pm_reason_ok :: "string \<Rightarrow> ValidationError \<Rightarrow> bool" where
  "pm_reason_ok action ve =
     (action = MethodDelete \<and> reqShared (veRequest ve) \<and> reqPackageManager (veRequest ve) \<noteq> [] \<longrightarrow>
        Reasons ve = [''packageManager must be empty for shared delete operations''])"

section \<open>Example data\<close>

text \<open>The configuration of the repository's own test of the resolver.\<close>

definition example_config :: Config where
  "example_config =
     \<lparr>NexusURL = ''http://nexus'', NexusUsername = ''admin'', NexusPassword = ''secret'',
      cfgBaseRoles = [''base-role''], cfgExtraRoles = [''extra-role''],
      IQServerURL = ''http://iq'', IQServerUsername = ''admin'', IQServerPassword = ''secret'',
      APIHost = ''127.0.0.1'', Port = 5000, APIToken = ''token'',
      Orgs = [''org1'' \<mapsto> ''org-id-1''],
      PackageManagers = [''npm'' \<mapsto> \<lparr>DefaultURL = ''https://registry.npmjs.org'',
                                       PrivilegeFormat = [], APIEndpointOf = None\<rparr>]\<rparr>"

definition example_request :: "string \<Rightarrow> string \<Rightarrow> bool \<Rightarrow> string \<Rightarrow> RepositoryRequest" where
  "example_request org pm shared app =
     \<lparr>reqOrganizationName = org, reqLdapUsername = ''user1'', reqPackageManager = pm,
      reqShared = shared, reqAppID = app\<rparr>"

text \<open>
  A batch of three create requests; the second names an unknown organization and its
  worker reports the failure of the resolver. The results arrive out of order.
\<close>

definition example_batch :: "RepositoryRequest list" where
  "example_batch =
     [example_request ''org1'' ''npm'' False ''app1'',
      example_request ''nowhere'' ''npm'' False ''app2'',
      example_request ''org1'' ''npm'' False ''app3'']"

definition example_results :: "batchResult list" where
  "example_results =
     [\<lparr>request = example_request ''org1'' ''npm'' False ''app1'',
       result = \<lparr>Success = True, Error = []\<rparr>\<rparr>,
      \<lparr>request = example_request ''org1'' ''npm'' False ''app3'',
       result = \<lparr>Success = True, Error = []\<rparr>\<rparr>,
      \<lparr>request = example_request ''nowhere'' ''npm'' False ''app2'',
       result = \<lparr>Success = False, Error = ''organization '' @ quoted ''nowhere'' @ '' not found''\<rparr>\<rparr>]"

text \<open>Four delete requests, of which only the second passes validation.\<close>

definition example_deletes :: "RepositoryRequest list" where
  "example_deletes =
     [example_request ''org1'' ''npm'' True ''app-9'',
      example_request ''org1'' [] True ''app-9'',
      example_request ''org1'' [] True [],
      example_request ''org1'' ''npm'' False []]"

text \<open>
  The offboarding scenario of the specification: two repositories and two privileges end
  with \<open>-release-app-9\<close>, one of each does not. The scripted client refuses the deletion
  of the user's role, of the first matching repository and of the first matching privilege.
\<close>

definition example_repository :: "string \<Rightarrow> Repository" where
  "example_repository name =
     \<lparr>repo_Name = name, repo_Format = ''npm'', repo_Type = ''proxy'', repo_Url = [],
      repo_Online = True\<rparr>"


definition example_user :: "string \<Rightarrow> string list \<Rightarrow> User" where
  "example_user name roles =
     \<lparr>UserID = name, FirstName = ''first'', LastName = ''last'', EmailAddress = ''user@example.com'',
      Source = ''LDAP'', user_Status = ''active'', Roles = roles\<rparr>"

definition example_role :: "string \<Rightarrow> string list \<Rightarrow> Role" where
  "example_role name privs =
     \<lparr>role_ID = name, role_Name = name, role_Description = [], Privileges = privs,
      role_Roles = []\<rparr>"

definition example_opConfig :: "string \<Rightarrow> string \<Rightarrow> string \<Rightarrow> bool \<Rightarrow> string \<Rightarrow> OperationConfig" where
  "example_opConfig action user role shared app =
     \<lparr>Action = action, LdapUsername = user, OrganizationID = ''org-id-1'',
      RemoteURL = ''https://registry.npmjs.org'', ExtraRoles = [''extra-role''],
      BaseRoles = [''base-role''], RepositoryName = ''npm-release-app-9'',
      PrivilegeName = ''npm-release-app-9'', RoleName = role, PackageManager = ''npm'',
      Shared = shared, AppID = app\<rparr>"


text \<open>
  The target role may be taken from the user when the role does not exist or has no
  privileges; \<open>roles_after_cleanup\<close> is the role list that the cleanup persists: the Role
  Decision Engine applied to the user's roles, without the target role if it may be taken.
\<close>

definition role_removable :: "Role option \<Rightarrow> bool" where
  "role_removable roleInfo = (case roleInfo of None \<Rightarrow> True | Some role \<Rightarrow> Privileges role = [])"

definition roles_after_cleanup :: "OperationConfig \<Rightarrow> string list \<Rightarrow> bool \<Rightarrow> string list" where
  "roles_after_cleanup opConfig roles removable =
     DecideFinalRoles
       (SetAfterRemovalRoles (NewRoleDecisionEngine (BaseRoles opConfig) (ExtraRoles opConfig))
          (if removable then remove1 (RoleName opConfig) roles else roles))"

text \<open>
  Standard-mode scenarios: the role \<open>app-role\<close> without privileges, and with one privilege.
\<close>

definition cleanup_script :: "string list \<Rightarrow> Script" where
  "cleanup_script privs =
     \<lparr>script_repositories = [], script_privileges = [],
      script_roles = [example_role ''app-role'' privs],
      script_users = [example_user ''app-user'' [''app-role'', ''extra-role'', ''base-role'']],
      failing = []\<rparr>"

definition empty_script :: Script where
  "empty_script =
     \<lparr>script_repositories = [], script_privileges = [], script_roles = [], script_users = [],
      failing = []\<rparr>"

text \<open>
  Creation scenarios: in the first the repository exists and the lookup of the privilege
  fails with an HTTP 500; in the second nothing exists and the creation of the repository
  is refused.
\<close>

definition creation_script :: Script where
  "creation_script =
     \<lparr>script_repositories = [example_repository ''npm-release-app-9''], script_privileges = [],
      script_roles = [], script_users = [],
      failing = [GetPrivilegeCall ''npm-release-app-9'']\<rparr>"

definition refusing_script :: Script where
  "refusing_script =
     \<lparr>script_repositories = [], script_privileges = [], script_roles = [], script_users = [],
      failing = [CreateProxyRepositoryCall
                   (example_opConfig ''create'' ''app-user'' ''app-user'' False ''app-9'')]\<rparr>"

section \<open>Properties of the Role Decision Engine\<close>

lemma removeAll_filter_conj: "removeAll x (filter P xs) = filter (\<lambda>y. y \<noteq> x \<and> P y) xs"
  by (induction xs) auto

lemma base_loop_spec:
  "base_loop bs (S, fr) = (S \<union> set bs, fr @ skip_dups (filter (\<lambda>r. r \<notin> S) bs))"
proof (induction bs arbitrary: S fr)
  case Nil
  show ?case by simp
next
  case (Cons b bs)
  show ?case
  proof (cases "b \<in> S")
    case True
    then show ?thesis using Cons.IH [of S fr] by auto
  next
    case False
    have "(\<lambda>y. y \<noteq> b \<and> y \<notin> S) = (\<lambda>r. r \<notin> insert b S)" by auto
    with False show ?thesis
      using Cons.IH [of "insert b S" "fr @ [b]"] by (simp add: removeAll_filter_conj)
  qed
qed

lemma remaining_loop_spec:
  "snd (remaining_loop extra keep rs (S, fr)) =
     fr @ skip_dups (filter (\<lambda>r. r \<notin> S \<and> (if r \<in> set extra then keep else True)) rs)"
proof -
  define P where "P = (\<lambda>S r. r \<notin> S \<and> (if r \<in> set extra then keep else True))"
  have "snd (remaining_loop extra keep rs (S, fr)) = fr @ skip_dups (filter (P S) rs)"
  proof (induction rs arbitrary: S fr)
    case Nil
    show ?case by simp
  next
    case (Cons r rs)
    show ?case
    proof (cases "P S r")
      case False
      then have "snd (remaining_loop extra keep (r # rs) (S, fr)) =
            snd (remaining_loop extra keep rs (S, fr))"
        unfolding P_def by (cases "r \<in> S"; cases "r \<in> set extra"; cases keep; simp)
      also have "\<dots> = fr @ skip_dups (filter (P S) rs)"
        by (rule Cons.IH)
      also have "\<dots> = fr @ skip_dups (filter (P S) (r # rs))"
        using False by simp
      finally show ?thesis .
    next
      case True
      have eq: "(\<lambda>y. y \<noteq> r \<and> P S y) = P (insert r S)"
        unfolding P_def by auto
      have "snd (remaining_loop extra keep (r # rs) (S, fr)) =
            snd (remaining_loop extra keep rs (insert r S, fr @ [r]))"
        using True unfolding P_def
        by (cases "r \<in> S"; cases "r \<in> set extra"; cases keep; simp)
      also have "\<dots> = (fr @ [r]) @ skip_dups (filter (P (insert r S)) rs)"
        by (rule Cons.IH)
      also have "\<dots> = fr @ skip_dups (filter (P S) (r # rs))"
        using True by (simp add: removeAll_filter_conj eq)
      finally show ?thesis .
    qed
  qed
  then show ?thesis unfolding P_def .
qed

lemma has_other_loop_iff:
  "has_other_loop base extra rs \<longleftrightarrow>
     (\<exists>r \<in> set rs. r \<notin> set base \<and> r \<noteq> ''repositories.share'' \<and> r \<notin> set extra)"
  by (induction rs) auto

text \<open>
  C2. For every \<open>baseRoles\<close>, \<open>extraRoles\<close> and \<open>afterRemoval\<close> of the engine,
  \<open>DecideFinalRoles\<close> returns exactly the base roles in configured order with duplicates
  skipped, followed by the roles of \<open>afterRemoval\<close> in their original order with
  duplicates skipped, where a role that is already a base role is not repeated, an extra
  role is kept only if \<open>HasOtherRoles\<close> holds, and every role that is neither a base role
  nor an extra role is kept. (The constructor strips the empty strings from the configured
  lists before they become the engine's \<open>baseRoles\<close> and \<open>extraRoles\<close>.)
\<close>

theorem DecideFinalRoles_exact:
  "DecideFinalRoles rde = spec_final_roles rde"
proof -
  have "DecideFinalRoles rde =
        snd (remaining_loop (extraRoles rde) (HasOtherRoles rde) (afterRemoval rde)
               ({} \<union> set (baseRoles rde), [] @ skip_dups (filter (\<lambda>r. r \<notin> {}) (baseRoles rde))))"
    unfolding DecideFinalRoles_def Let_def base_loop_spec ..
  also have "\<dots> = skip_dups (baseRoles rde) @
        skip_dups (filter (\<lambda>r. r \<notin> set (baseRoles rde) \<and>
                     (if r \<in> set (extraRoles rde) then HasOtherRoles rde else True)) (afterRemoval rde))"
    unfolding remaining_loop_spec by simp
  finally show ?thesis
    unfolding spec_final_roles_def kept_after_removal_def .
qed

theorem DecideFinalRoles_exact_witness:
  "DecideFinalRoles (SetAfterRemovalRoles
       (NewRoleDecisionEngine [''base'', '''', ''base''] [''extra''])
       [''extra'', ''proj'', ''base'', ''proj'']) = [''base'', ''extra'', ''proj'']
   \<and> DecideFinalRoles (SetAfterRemovalRoles
       (NewRoleDecisionEngine [''base''] [''extra''])
       [''extra'', ''repositories.share'', ''base'']) = [''base'', ''repositories.share'']"
  using DecideFinalRoles_exact [of "SetAfterRemovalRoles
          (NewRoleDecisionEngine [''base'', '''', ''base''] [''extra''])
          [''extra'', ''proj'', ''base'', ''proj'']"]
        DecideFinalRoles_exact [of "SetAfterRemovalRoles
          (NewRoleDecisionEngine [''base''] [''extra''])
          [''extra'', ''repositories.share'', ''base'']"]
  by (simp add: spec_final_roles_def kept_after_removal_def HasOtherRoles_def
        SetAfterRemovalRoles_def NewRoleDecisionEngine_def)

text \<open>
  C3. For every \<open>afterRemoval\<close> list, \<open>HasOtherRoles\<close> is true if and only if the list
  contains a role that is not a base role, not the fixed shared-role constant
  \<open>repositories.share\<close>, and not an extra role.
\<close>

theorem HasOtherRoles_iff:
  "HasOtherRoles rde \<longleftrightarrow>
     (\<exists>r \<in> set (afterRemoval rde).
        r \<notin> set (baseRoles rde) \<and> r \<noteq> ''repositories.share'' \<and> r \<notin> set (extraRoles rde))"
  unfolding HasOtherRoles_def by (rule has_other_loop_iff)

theorem HasOtherRoles_iff_witness:
  "HasOtherRoles \<lparr>baseRoles = [''base''], extraRoles = [''extra''],
                  afterRemoval = [''base'', ''repositories.share'', ''proj'']\<rparr>
   \<and> \<not> HasOtherRoles \<lparr>baseRoles = [''base''], extraRoles = [''extra''],
                  afterRemoval = [''base'', ''repositories.share'', ''extra'']\<rparr>"
  using HasOtherRoles_iff [of "\<lparr>baseRoles = [''base''], extraRoles = [''extra''],
                  afterRemoval = [''base'', ''repositories.share'', ''proj'']\<rparr>"]
        HasOtherRoles_iff [of "\<lparr>baseRoles = [''base''], extraRoles = [''extra''],
                  afterRemoval = [''base'', ''repositories.share'', ''extra'']\<rparr>"]
  by simp

section \<open>Properties of the Job Store and of the batch fan-in\<close>

lemma GetJob_CreateJob_same:
  "GetJob (CreateJob now js i a n) i =
     Some \<lparr>ID = i, Status = JobStatusPending, jobAction = a, CreatedAt = now, UpdatedAt = now,
           TotalRequests = n, SuccessfulOperations = 0, FailedOperations = 0,
           NotProcessedOperations = n, FailedRequests = [], Message = ''Job queued''\<rparr>"
  by (simp add: GetJob_def CreateJob_def)

lemma GetJob_CreateJob_other: "i' \<noteq> i \<Longrightarrow> GetJob (CreateJob now js i a n) i' = GetJob js i'"
  by (simp add: GetJob_def CreateJob_def)

lemma GetJob_update:
  "GetJob (discard_error js (UpdateJob now js i f)) i' =
     (if i' = i then map_option (\<lambda>job. (f job)\<lparr>UpdatedAt := now\<rparr>) (GetJob js i)
      else GetJob js i')"
  by (simp add: GetJob_def discard_error_def UpdateJob_def split: option.splits)

lemma fan_in_spec:
  "fan_in results (s, f, frs) =
     (s + int (length (filter succeeded results)),
      f + int (length (filter (\<lambda>r. \<not> succeeded r) results)),
      frs @ map failed_request_of (filter (\<lambda>r. \<not> succeeded r) results))"
  by (induction results arbitrary: s f frs) (simp_all add: succeeded_def failed_request_of_def)

lemma filter_split_length:
  "int (length (filter P xs)) + int (length (filter (\<lambda>x. \<not> P x) xs)) = int (length xs)"
  by (induction xs) simp_all

lemma results_length:
  "mset (map request results) = mset requests \<Longrightarrow> length results = length requests"
  by (metis length_map size_mset)

lemma finalize_update_counts:
  "SuccessfulOperations (finalize_update s f np n frs job) = s
   \<and> FailedOperations (finalize_update s f np n frs job) = f
   \<and> NotProcessedOperations (finalize_update s f np n frs job) = np
   \<and> FailedRequests (finalize_update s f np n frs job) = frs
   \<and> TotalRequests (finalize_update s f np n frs job) = TotalRequests job
   \<and> Status (finalize_update s f np n frs job) =
       (if f = 0 then JobStatusCompleted else if s = 0 then JobStatusFailed else JobStatusCompleted)"
  by (simp add: finalize_update_def Let_def)

lemma GetJob_ProcessBatchAsync:
  "GetJob (ProcessBatchAsync t0 t1 t2 js jobID action vr results) jobID =
     Some ((finalize_update (int (length (filter succeeded results)))
              (int (length (filter (\<lambda>r. \<not> succeeded r) results))) 0
              (int (length (ValidRequests vr)))
              (map failed_request_of (filter (\<lambda>r. \<not> succeeded r) results))
              (the (GetJob (SetProcessing t1
                 (CreateJob t0 js jobID action (int (length (ValidRequests vr)))) jobID) jobID)))
           \<lparr>UpdatedAt := t2\<rparr>)"
  by (simp add: ProcessBatchAsync_def process_batch_def Let_def fan_in_spec Finalize_def
        SetProcessing_def GetJob_update GetJob_CreateJob_same)

lemma GetJob_ProcessBatchAsync_other:
  "i' \<noteq> jobID \<Longrightarrow>
     GetJob (ProcessBatchAsync t0 t1 t2 js jobID action vr results) i' = GetJob js i'"
  by (simp add: ProcessBatchAsync_def process_batch_def Let_def fan_in_spec Finalize_def
        SetProcessing_def GetJob_update GetJob_CreateJob_other)

lemma TotalRequests_after_SetProcessing:
  "GetJob (SetProcessing t1 (CreateJob t0 js jobID action n) jobID) jobID = Some job \<Longrightarrow>
     TotalRequests job = n \<and> SuccessfulOperations job = 0 \<and> FailedOperations job = 0
     \<and> NotProcessedOperations job = n"
  by (auto simp: SetProcessing_def GetJob_update GetJob_CreateJob_same)

text \<open>
  C7. A batch of \<open>n\<close> valid requests whose workers reported \<open>s\<close> successes and \<open>f\<close>
  failures (one result per request, in any order) ends with a job whose status is
  completed when \<open>f = 0\<close> or when both \<open>s > 0\<close> and \<open>f > 0\<close>, and failed when \<open>s = 0\<close> and
  \<open>f > 0\<close>; the job carries \<open>successfulOperations = s\<close>, \<open>failedOperations = f\<close>,
  \<open>notProcessedOperations = 0\<close> and one \<open>FailedRequest\<close> record per failed request.
\<close>

theorem batch_finalization:
  fixes results :: "batchResult list" and vr :: ValidationResult
  defines "s \<equiv> int (length (filter succeeded results))"
      and "f \<equiv> int (length (filter (\<lambda>r. \<not> succeeded r) results))"
  assumes one_each: "mset (map request results) = mset (ValidRequests vr)"
  shows "\<exists>job. GetJob (ProcessBatchAsync t0 t1 t2 js jobID action vr results) jobID = Some job
           \<and> s + f = int (length (ValidRequests vr))
           \<and> (f = 0 \<or> (0 < s \<and> 0 < f) \<longrightarrow> Status job = JobStatusCompleted)
           \<and> (s = 0 \<and> 0 < f \<longrightarrow> Status job = JobStatusFailed)
           \<and> SuccessfulOperations job = s
           \<and> FailedOperations job = f
           \<and> NotProcessedOperations job = 0
           \<and> TotalRequests job = int (length (ValidRequests vr))
           \<and> FailedRequests job = map failed_request_of (filter (\<lambda>r. \<not> succeeded r) results)
           \<and> int (length (FailedRequests job)) = f"
proof -
  let ?n = "int (length (ValidRequests vr))"
  let ?js1 = "SetProcessing t1 (CreateJob t0 js jobID action ?n) jobID"
  obtain job0 where job0: "GetJob ?js1 jobID = Some job0"
    by (simp add: SetProcessing_def GetJob_update GetJob_CreateJob_same)
  have total0: "TotalRequests job0 = ?n"
    using TotalRequests_after_SetProcessing [OF job0] by simp
  let ?frs = "map failed_request_of (filter (\<lambda>r. \<not> succeeded r) results)"
  let ?job = "(finalize_update s f 0 ?n ?frs job0)\<lparr>UpdatedAt := t2\<rparr>"
  have final: "GetJob (ProcessBatchAsync t0 t1 t2 js jobID action vr results) jobID = Some ?job"
    unfolding GetJob_ProcessBatchAsync s_def f_def using job0 by simp
  have sum: "s + f = ?n"
    unfolding s_def f_def using results_length [OF one_each] by (simp add: filter_split_length)
  have nonneg: "0 \<le> s" "0 \<le> f"
    unfolding s_def f_def by simp_all
  have counts: "SuccessfulOperations ?job = s" "FailedOperations ?job = f"
    "NotProcessedOperations ?job = 0" "FailedRequests ?job = ?frs" "TotalRequests ?job = ?n"
    using finalize_update_counts [of s f 0 ?n ?frs job0] total0 by simp_all
  have status: "Status ?job =
      (if f = 0 then JobStatusCompleted else if s = 0 then JobStatusFailed else JobStatusCompleted)"
    using finalize_update_counts [of s f 0 ?n ?frs job0] by simp
  have completed: "f = 0 \<or> (0 < s \<and> 0 < f) \<longrightarrow> Status ?job = JobStatusCompleted"
    unfolding status by auto
  have failed: "s = 0 \<and> 0 < f \<longrightarrow> Status ?job = JobStatusFailed"
    unfolding status by auto
  have len: "int (length (FailedRequests ?job)) = f"
  proof -
    have "int (length (FailedRequests ?job)) = int (length ?frs)"
      by (simp only: counts(4))
    also have "\<dots> = f"
      by (simp add: f_def)
    finally show ?thesis .
  qed
  show ?thesis
    using final sum completed failed counts len by blast
qed

theorem batch_finalization_witness:
  "GetJob (ProcessBatchAsync 1 2 3 NewJobStore ''job-1'' ''create''
     \<lparr>ValidRequests = example_batch, InvalidRequests = []\<rparr> example_results) ''job-1'' =
   Some \<lparr>ID = ''job-1'', Status = JobStatusCompleted, jobAction = ''create'', CreatedAt = 1,
         UpdatedAt = 3, TotalRequests = 3, SuccessfulOperations = 2, FailedOperations = 1,
         NotProcessedOperations = 0,
         FailedRequests = [\<lparr>Request = example_request ''nowhere'' ''npm'' False ''app2'',
                            Reason = ''organization '' @ quoted ''nowhere'' @ '' not found''\<rparr>],
         Message = ''Processed 2 of 3 requests with 1 errors''\<rparr>"
proof -
  have one_each: "mset (map request example_results) =
        mset (ValidRequests \<lparr>ValidRequests = example_batch, InvalidRequests = []\<rparr>)"
    by (simp add: example_batch_def example_results_def)
  show ?thesis
    using batch_finalization [OF one_each, of 1 2 3 NewJobStore "''job-1''" "''create''"]
    by (simp add: GetJob_ProcessBatchAsync example_batch_def example_results_def succeeded_def
          failed_request_of_def finalize_update_def SetProcessing_def GetJob_update
          GetJob_CreateJob_same itoa_def digits.simps)
qed

lemma all_balanced_CreateJob:
  assumes "all_balanced js"
  shows "all_balanced (CreateJob now js i a n)"
  unfolding all_balanced_def
proof (intro allI impI)
  fix i' job
  assume got: "GetJob (CreateJob now js i a n) i' = Some job"
  show "job_balanced job"
  proof (cases "i' = i")
    case True
    with got show ?thesis
      by (auto simp: GetJob_CreateJob_same job_balanced_def)
  next
    case False
    with got assms show ?thesis
      by (simp add: GetJob_CreateJob_other all_balanced_def)
  qed
qed

lemma all_balanced_update:
  assumes inv: "all_balanced js"
    and step: "\<And>job. GetJob js i = Some job \<Longrightarrow> job_balanced job \<Longrightarrow> job_balanced (f job)"
  shows "all_balanced (discard_error js (UpdateJob now js i f))"
  unfolding all_balanced_def
proof (intro allI impI)
  fix i' job
  assume got: "GetJob (discard_error js (UpdateJob now js i f)) i' = Some job"
  show "job_balanced job"
  proof (cases "i' = i")
    case False
    with got inv show ?thesis
      by (simp add: GetJob_update all_balanced_def)
  next
    case True
    with got obtain job0 where job0: "GetJob js i = Some job0"
      and job: "job = (f job0)\<lparr>UpdatedAt := now\<rparr>"
      by (auto simp: GetJob_update)
    have "job_balanced job0"
      using inv job0 by (simp add: all_balanced_def)
    then have "job_balanced (f job0)"
      by (rule step [OF job0])
    then show ?thesis
      unfolding job by (simp add: job_balanced_def)
  qed
qed

text \<open>
  C1. Every job that \<open>GetJob\<close> can return satisfies
  \<open>TotalRequests = SuccessfulOperations + FailedOperations + NotProcessedOperations\<close> in
  every state of a batch: after \<open>CreateJob\<close> (with any total), after \<open>SetProcessing\<close>,
  after the \<open>Finalize\<close> of the fan-in, and after \<open>MarkFailed\<close> called on the tracker of
  the running job (with any total). The jobs of other batches in the store are left as
  they were, so the invariant of the whole store is preserved; the job of the batch exists
  in each of these states.
\<close>

theorem job_counts_balanced:
  fixes results :: "batchResult list" and vr :: ValidationResult
  assumes inv: "all_balanced js"
      and one_each: "mset (map request results) = mset (ValidRequests vr)"
  shows "(\<forall>n. all_balanced (CreateJob t0 js jobID action n)
              \<and> GetJob (CreateJob t0 js jobID action n) jobID \<noteq> None)
       \<and> (\<forall>n. all_balanced (SetProcessing t1 (CreateJob t0 js jobID action n) jobID)
              \<and> GetJob (SetProcessing t1 (CreateJob t0 js jobID action n) jobID) jobID \<noteq> None)
       \<and> all_balanced (ProcessBatchAsync t0 t1 t2 js jobID action vr results)
       \<and> GetJob (ProcessBatchAsync t0 t1 t2 js jobID action vr results) jobID \<noteq> None
       \<and> (\<forall>n m. all_balanced (MarkFailed t2 (SetProcessing t1 (CreateJob t0 js jobID action n) jobID) jobID m)
              \<and> GetJob (MarkFailed t2 (SetProcessing t1 (CreateJob t0 js jobID action n) jobID) jobID m) jobID \<noteq> None)"
proof -
  have created: "all_balanced (CreateJob t0 js jobID action n)" for n
    using inv by (rule all_balanced_CreateJob)
  have created_ex: "GetJob (CreateJob t0 js jobID action n) jobID \<noteq> None" for n
    by (simp add: GetJob_CreateJob_same)
  have processing: "all_balanced (SetProcessing t1 (CreateJob t0 js jobID action n) jobID)" for n
    unfolding SetProcessing_def
    by (rule all_balanced_update [OF created]) (simp add: job_balanced_def)
  have processing_ex:
    "GetJob (SetProcessing t1 (CreateJob t0 js jobID action n) jobID) jobID \<noteq> None" for n
    by (simp add: SetProcessing_def GetJob_update GetJob_CreateJob_same)
  have marked:
    "all_balanced (MarkFailed t2 (SetProcessing t1 (CreateJob t0 js jobID action n) jobID) jobID m)"
    for n m
    unfolding MarkFailed_def
  proof (rule all_balanced_update [OF processing])
    fix job
    assume "GetJob (SetProcessing t1 (CreateJob t0 js jobID action n) jobID) jobID = Some job"
    from TotalRequests_after_SetProcessing [OF this]
    show "job_balanced (job\<lparr>Status := JobStatusFailed, TotalRequests := m,
             FailedOperations := m, NotProcessedOperations := 0,
             Message := ''All '' @ itoa m @ '' requests failed''\<rparr>)"
      by (simp add: job_balanced_def)
  qed
  have marked_ex:
    "GetJob (MarkFailed t2 (SetProcessing t1 (CreateJob t0 js jobID action n) jobID) jobID m) jobID \<noteq> None"
    for n m
    by (simp add: MarkFailed_def SetProcessing_def GetJob_update GetJob_CreateJob_same)
  let ?n = "int (length (ValidRequests vr))"
  have finalized: "all_balanced (ProcessBatchAsync t0 t1 t2 js jobID action vr results)"
    unfolding all_balanced_def
  proof (intro allI impI)
    fix i job
    assume got: "GetJob (ProcessBatchAsync t0 t1 t2 js jobID action vr results) i = Some job"
    show "job_balanced job"
    proof (cases "i = jobID")
      case False
      then show ?thesis
        using got inv by (simp add: GetJob_ProcessBatchAsync_other all_balanced_def)
    next
      case True
      obtain job0 where job0:
        "GetJob (SetProcessing t1 (CreateJob t0 js jobID action ?n) jobID) jobID = Some job0"
        using processing_ex by blast
      have total0: "TotalRequests job0 = ?n"
        using TotalRequests_after_SetProcessing [OF job0] by simp
      let ?s = "int (length (filter succeeded results))"
      let ?f = "int (length (filter (\<lambda>r. \<not> succeeded r) results))"
      let ?frs = "map failed_request_of (filter (\<lambda>r. \<not> succeeded r) results)"
      have job: "job = (finalize_update ?s ?f 0 ?n ?frs job0)\<lparr>UpdatedAt := t2\<rparr>"
        using got True job0 by (simp add: GetJob_ProcessBatchAsync)
      have "?s + ?f = ?n"
        using results_length [OF one_each] by (simp add: filter_split_length)
      then show ?thesis
        using finalize_update_counts [of ?s ?f 0 ?n ?frs job0] total0
        unfolding job job_balanced_def by simp
    qed
  qed
  have finalized_ex: "GetJob (ProcessBatchAsync t0 t1 t2 js jobID action vr results) jobID \<noteq> None"
    by (simp add: GetJob_ProcessBatchAsync)
  show ?thesis
    using created created_ex processing processing_ex finalized finalized_ex marked marked_ex
    by blast
qed

theorem job_counts_balanced_witness:
  "all_balanced (CreateJob 1 NewJobStore ''job-1'' ''create'' 3)
   \<and> all_balanced (SetProcessing 2 (CreateJob 1 NewJobStore ''job-1'' ''create'' 3) ''job-1'')
   \<and> all_balanced (ProcessBatchAsync 1 2 3 NewJobStore ''job-1'' ''create''
         \<lparr>ValidRequests = example_batch, InvalidRequests = []\<rparr> example_results)
   \<and> all_balanced (MarkFailed 3
         (SetProcessing 2 (CreateJob 1 NewJobStore ''job-1'' ''create'' 3) ''job-1'') ''job-1'' 3)"
proof -
  have inv: "all_balanced NewJobStore"
    by (simp add: all_balanced_def GetJob_def NewJobStore_def)
  have one_each: "mset (map request example_results) =
        mset (ValidRequests \<lparr>ValidRequests = example_batch, InvalidRequests = []\<rparr>)"
    by (simp add: example_batch_def example_results_def)
  show ?thesis
    using job_counts_balanced [OF inv one_each, of 1 "''job-1''" "''create''" 2 3]
    by blast
qed

section \<open>Properties of the batch validation\<close>

lemma validate_request_accepts:
  "spec_accepts action req \<Longrightarrow>
     validate_request action req vr = vr\<lparr>ValidRequests := ValidRequests vr @ [req]\<rparr>"
  unfolding spec_accepts_def validate_request_def MethodCreate_def MethodDelete_def
  by (cases "action = ''delete''"; cases "action = ''create''"; cases "reqShared req";
      cases "reqPackageManager req = []"; cases "reqAppID req = []"; simp)

lemma validate_request_rejects:
  "\<not> spec_accepts action req \<Longrightarrow>
     \<exists>reason. validate_request action req vr = reject vr req reason
       \<and> (action = MethodDelete \<and> reqShared req \<and> reqPackageManager req \<noteq> [] \<longrightarrow>
            reason = ''packageManager must be empty for shared delete operations'')"
  unfolding spec_accepts_def validate_request_def MethodCreate_def MethodDelete_def
  by (cases "action = ''delete''"; cases "action = ''create''"; cases "reqShared req";
      cases "reqPackageManager req = []"; cases "reqAppID req = []"; (simp; blast))

lemma validate_loop_spec:
  "ValidRequests (validate_loop action reqs vr) = ValidRequests vr @ filter (spec_accepts action) reqs
   \<and> map veRequest (InvalidRequests (validate_loop action reqs vr)) =
       map veRequest (InvalidRequests vr) @ filter (\<lambda>r. \<not> spec_accepts action r) reqs
   \<and> ((\<forall>ve \<in> set (InvalidRequests vr). pm_reason_ok action ve) \<longrightarrow>
       (\<forall>ve \<in> set (InvalidRequests (validate_loop action reqs vr)). pm_reason_ok action ve))"
proof (induction reqs arbitrary: vr)
  case Nil
  show ?case by simp
next
  case (Cons req reqs)
  show ?case
  proof (cases "spec_accepts action req")
    case True
    show ?thesis
      using Cons.IH [of "vr\<lparr>ValidRequests := ValidRequests vr @ [req]\<rparr>"] True
      by (simp add: validate_request_accepts)
  next
    case False
    from validate_request_rejects [OF False, of vr] obtain reason where
      step: "validate_request action req vr = reject vr req reason" and
      reason: "action = MethodDelete \<and> reqShared req \<and> reqPackageManager req \<noteq> [] \<longrightarrow>
            reason = ''packageManager must be empty for shared delete operations''"
      by blast
    have ok: "pm_reason_ok action \<lparr>veRequest = req, Reasons = [reason]\<rparr>"
      using reason by (simp add: pm_reason_ok_def)
    show ?thesis
      using Cons.IH [of "reject vr req reason"] False ok
      by (simp add: step reject_def)
  qed
qed

text \<open>
  C6. Validation accepts a request of a batch if and only if \<open>packageManager\<close> is empty
  when the action is delete and the request is shared, and non-empty in every other
  combination; \<open>appID\<close> is empty for a shared create, non-empty for a shared delete, and
  non-empty whenever the request is not shared. The valid requests are the accepted ones in
  the order of the batch, the invalid ones the others. A shared delete request with a
  non-empty \<open>packageManager\<close> is rejected with the reason
  \<open>packageManager must be empty for shared delete operations\<close>.
\<close>

theorem validation_accepts_iff:
  "ValidRequests (validateBatchRequest batch action) = filter (spec_accepts action) batch
   \<and> map veRequest (InvalidRequests (validateBatchRequest batch action)) =
       filter (\<lambda>req. \<not> spec_accepts action req) batch
   \<and> (\<forall>req \<in> set batch.
        req \<in> set (ValidRequests (validateBatchRequest batch action)) \<longleftrightarrow> spec_accepts action req)
   \<and> (\<forall>ve \<in> set (InvalidRequests (validateBatchRequest batch action)).
        action = MethodDelete \<and> reqShared (veRequest ve) \<and> reqPackageManager (veRequest ve) \<noteq> [] \<longrightarrow>
          Reasons ve = [''packageManager must be empty for shared delete operations''])"
proof -
  let ?vr0 = "\<lparr>ValidRequests = [], InvalidRequests = []\<rparr>"
  note spec = validate_loop_spec [of action batch ?vr0]
  have valid: "ValidRequests (validateBatchRequest batch action) = filter (spec_accepts action) batch"
    using spec by (simp add: validateBatchRequest_def)
  have invalid: "map veRequest (InvalidRequests (validateBatchRequest batch action)) =
       filter (\<lambda>req. \<not> spec_accepts action req) batch"
    using spec by (simp add: validateBatchRequest_def)
  have reasons: "\<forall>ve \<in> set (InvalidRequests (validateBatchRequest batch action)). pm_reason_ok action ve"
    using spec by (simp add: validateBatchRequest_def)
  show ?thesis
    using valid invalid reasons unfolding pm_reason_ok_def by simp
qed


theorem validation_accepts_iff_witness:
  "ValidRequests (validateBatchRequest example_deletes ''delete'') =
     [example_request ''org1'' [] True ''app-9'']
   \<and> map veRequest (InvalidRequests (validateBatchRequest example_deletes ''delete'')) =
     [example_request ''org1'' ''npm'' True ''app-9'',
      example_request ''org1'' [] True [],
      example_request ''org1'' ''npm'' False []]
   \<and> Reasons (hd (InvalidRequests (validateBatchRequest example_deletes ''delete''))) =
     [''packageManager must be empty for shared delete operations'']"
proof -
  note spec = validation_accepts_iff [of example_deletes "''delete''"]
  have accepts: "filter (spec_accepts ''delete'') example_deletes =
      [example_request ''org1'' [] True ''app-9'']"
    by (simp add: spec_accepts_def example_deletes_def example_request_def
          MethodCreate_def MethodDelete_def)
  have rejects: "filter (\<lambda>req. \<not> spec_accepts ''delete'' req) example_deletes =
      [example_request ''org1'' ''npm'' True ''app-9'',
       example_request ''org1'' [] True [],
       example_request ''org1'' ''npm'' False []]"
    by (simp add: spec_accepts_def example_deletes_def example_request_def
          MethodCreate_def MethodDelete_def)
  have valid: "ValidRequests (validateBatchRequest example_deletes ''delete'') =
     [example_request ''org1'' [] True ''app-9'']"
    using spec [THEN conjunct1] unfolding accepts .
  have invalid: "map veRequest (InvalidRequests (validateBatchRequest example_deletes ''delete'')) =
     [example_request ''org1'' ''npm'' True ''app-9'',
      example_request ''org1'' [] True [],
      example_request ''org1'' ''npm'' False []]"
    using spec [THEN conjunct2, THEN conjunct1] unfolding rejects .
  let ?ve = "hd (InvalidRequests (validateBatchRequest example_deletes ''delete''))"
  from invalid have nonempty: "InvalidRequests (validateBatchRequest example_deletes ''delete'') \<noteq> []"
    by auto
  then have mem: "?ve \<in> set (InvalidRequests (validateBatchRequest example_deletes ''delete''))"
    by simp
  have req: "veRequest ?ve = example_request ''org1'' ''npm'' True ''app-9''"
    using invalid nonempty by (simp add: hd_map [symmetric])
  have premise: "''delete'' = MethodDelete \<and> reqShared (veRequest ?ve)
      \<and> reqPackageManager (veRequest ?ve) \<noteq> []"
    unfolding req by (simp add: MethodDelete_def example_request_def)
  have reason: "Reasons ?ve = [''packageManager must be empty for shared delete operations'']"
    using spec [THEN conjunct2, THEN conjunct2, THEN conjunct2, THEN bspec, OF mem] premise
    by blast
  show ?thesis
    using valid invalid reason by blast
qed


section \<open>Properties of the Operation Config Resolver\<close>

text \<open>
  C8. For every request whose organization and package manager are found, the resolver
  returns a descriptor whose \<open>repositoryName\<close>, and the identical \<open>privilegeName\<close>, is
  \<open>lowercase(packageManager) + "-release-" + ("shared" if shared else appID)\<close>, and whose
  \<open>roleName\<close> is \<open>ldapUsername\<close> unless the request is shared, in which case it is the
  constant \<open>repositories.share\<close>.
\<close>

theorem resolved_names:
  assumes org: "Orgs c (reqOrganizationName r) = Some orgID"
      and pm: "PackageManagers c (reqPackageManager r) = Some manager"
  shows "\<exists>opConfig. CreateOpConfig ToLower c r action = Inr opConfig
           \<and> RepositoryName opConfig =
               ToLower (reqPackageManager r) @ ''-release-'' @
                 (if reqShared r then ''shared'' else reqAppID r)
           \<and> PrivilegeName opConfig = RepositoryName opConfig
           \<and> RoleName opConfig =
               (if reqShared r then ''repositories.share'' else reqLdapUsername r)"
  using org pm by (simp add: CreateOpConfig_def Let_def)

theorem resolved_names_witness:
  "\<exists>opConfig.
     CreateOpConfig ascii_ToLower
       (example_config\<lparr>PackageManagers :=
          [''NPM'' \<mapsto> \<lparr>DefaultURL = ''https://registry.npmjs.org'',
                       PrivilegeFormat = [], APIEndpointOf = None\<rparr>]\<rparr>)
       (example_request ''org1'' ''NPM'' False ''app1'') ''create'' = Inr opConfig
     \<and> RepositoryName opConfig = ''npm-release-app1''
     \<and> PrivilegeName opConfig = ''npm-release-app1''
     \<and> RoleName opConfig = ''user1''"
proof -
  let ?c = "example_config\<lparr>PackageManagers :=
          [''NPM'' \<mapsto> \<lparr>DefaultURL = ''https://registry.npmjs.org'',
                       PrivilegeFormat = [], APIEndpointOf = None\<rparr>]\<rparr>"
  let ?r = "example_request ''org1'' ''NPM'' False ''app1''"
  have org: "Orgs ?c (reqOrganizationName ?r) = Some ''org-id-1''"
    by (simp add: example_config_def example_request_def)
  have pm: "PackageManagers ?c (reqPackageManager ?r) =
      Some \<lparr>DefaultURL = ''https://registry.npmjs.org'', PrivilegeFormat = [], APIEndpointOf = None\<rparr>"
    by (simp add: example_config_def example_request_def)
  from resolved_names [OF org pm, of ascii_ToLower "''create''"]
  obtain opConfig where
    res: "CreateOpConfig ascii_ToLower ?c ?r ''create'' = Inr opConfig" and
    repo: "RepositoryName opConfig = ascii_ToLower (reqPackageManager ?r) @ ''-release-'' @
                 (if reqShared ?r then ''shared'' else reqAppID ?r)" and
    priv: "PrivilegeName opConfig = RepositoryName opConfig" and
    role: "RoleName opConfig =
                 (if reqShared ?r then ''repositories.share'' else reqLdapUsername ?r)"
    by blast
  have repo': "RepositoryName opConfig = ''npm-release-app1''"
    unfolding repo by (simp add: example_request_def ascii_ToLower_def ascii_lower_char_def)
  have role': "RoleName opConfig = ''user1''"
    unfolding role by (simp add: example_request_def)
  show ?thesis
    using res repo' priv role' by simp
qed

text \<open>
  C4. The descriptor of a resolved operation is to carry the \<open>shared\<close> flag and the
  \<open>appID\<close> of its request. The resolver does not do so: the struct literal of
  \<open>CreateOpConfig\<close> leaves both fields out. For a shared create request whose lookups
  succeed the descriptor has \<open>Shared = False\<close>, and for a delete request with the
  \<open>appID\<close> \<open>app1\<close> it has the empty \<open>AppID\<close>; the other ten fields are as specified.
\<close>

theorem CreateOpConfig_drops_Shared_and_AppID:
  "CreateOpConfig ascii_ToLower example_config
     (example_request ''org1'' ''npm'' True []) ''create'' =
   Inr \<lparr>Action = ''create'', LdapUsername = ''user1'', OrganizationID = ''org-id-1'',
        RemoteURL = ''https://registry.npmjs.org'', ExtraRoles = [''extra-role''],
        BaseRoles = [''base-role''], RepositoryName = ''npm-release-shared'',
        PrivilegeName = ''npm-release-shared'', RoleName = ''repositories.share'',
        PackageManager = ''npm'', Shared = False, AppID = []\<rparr>
   \<and> CreateOpConfig ascii_ToLower example_config
     (example_request ''org1'' ''npm'' False ''app1'') ''delete'' =
   Inr \<lparr>Action = ''delete'', LdapUsername = ''user1'', OrganizationID = ''org-id-1'',
        RemoteURL = ''https://registry.npmjs.org'', ExtraRoles = [''extra-role''],
        BaseRoles = [''base-role''], RepositoryName = ''npm-release-app1'',
        PrivilegeName = ''npm-release-app1'', RoleName = ''user1'',
        PackageManager = ''npm'', Shared = False, AppID = []\<rparr>"
  by (simp add: CreateOpConfig_def Let_def example_config_def example_request_def
        ascii_ToLower_def ascii_lower_char_def)

section \<open>Properties of the deletion workflow\<close>

lemma HasSuffix_iff: "HasSuffix s suffix \<longleftrightarrow> (\<exists>p. s = p @ suffix)"
proof
  assume "HasSuffix s suffix"
  then have "s = take (length s - length suffix) s @ suffix"
    by (metis HasSuffix_def append_take_drop_id)
  then show "\<exists>p. s = p @ suffix" ..
next
  assume "\<exists>p. s = p @ suffix"
  then show "HasSuffix s suffix"
    by (auto simp: HasSuffix_def)
qed









lemma remove_role_remove1: "remove_role roleName roles = remove1 roleName roles"
  by (induction roles) auto

lemma CleanupRole_absent:
  "nexus_GetRole nx h (RoleName opConfig) = Inr None \<Longrightarrow>
     CleanupRole nx opConfig h = (None, h @ [GetRoleCall (RoleName opConfig)])"
  by (simp add: CleanupRole_def Let_def)

lemma CleanupRole_in_use:
  "nexus_GetRole nx h (RoleName opConfig) = Inr (Some role) \<Longrightarrow> Privileges role \<noteq> [] \<Longrightarrow>
     CleanupRole nx opConfig h = (None, h @ [GetRoleCall (RoleName opConfig)])"
  by (simp add: CleanupRole_def Let_def)

lemma CleanupRole_empty:
  "nexus_GetRole nx h (RoleName opConfig) = Inr (Some role) \<Longrightarrow> Privileges role = [] \<Longrightarrow>
     snd (CleanupRole nx opConfig h) =
       h @ [GetRoleCall (RoleName opConfig), DeleteRoleCall (RoleName opConfig)]
     \<and> (fst (CleanupRole nx opConfig h) = None \<longleftrightarrow>
          nexus_DeleteRole nx (h @ [GetRoleCall (RoleName opConfig)]) (RoleName opConfig) = None)"
  by (simp add: CleanupRole_def Let_def wrap_error_def split: option.splits)

lemma CleanupUserRoles_absent:
  "nexus_GetUser nx h (LdapUsername opConfig) = Inr None \<Longrightarrow>
     CleanupUserRoles nx opConfig h = (None, h @ [GetUserCall (LdapUsername opConfig)])"
  by (simp add: CleanupUserRoles_def Let_def)

lemma decide_and_update_spec:
  "decide_and_update nx opConfig user (if removable then remove1 (RoleName opConfig) roles else roles) h' =
     (wrap_error (''cleanup user roles for '' @ quoted (LdapUsername opConfig) @ '': update user failed'')
        (nexus_UpdateUser nx h' (user\<lparr>Roles := roles_after_cleanup opConfig roles removable\<rparr>)),
      h' @ [UpdateUserCall (user\<lparr>Roles := roles_after_cleanup opConfig roles removable\<rparr>)])"
  by (simp add: decide_and_update_def roles_after_cleanup_def Let_def)

lemma CleanupUserRoles_present:
  assumes user: "nexus_GetUser nx h (LdapUsername opConfig) = Inr (Some user)"
      and named: "RoleName opConfig \<noteq> []"
      and role: "nexus_GetRole nx (h @ [GetUserCall (LdapUsername opConfig)]) (RoleName opConfig) = Inr roleInfo"
  shows "CleanupUserRoles nx opConfig h =
     (wrap_error (''cleanup user roles for '' @ quoted (LdapUsername opConfig) @ '': update user failed'')
        (nexus_UpdateUser nx (h @ [GetUserCall (LdapUsername opConfig), GetRoleCall (RoleName opConfig)])
           (user\<lparr>Roles := roles_after_cleanup opConfig (Roles user) (role_removable roleInfo)\<rparr>)),
      h @ [GetUserCall (LdapUsername opConfig), GetRoleCall (RoleName opConfig),
           UpdateUserCall (user\<lparr>Roles := roles_after_cleanup opConfig (Roles user) (role_removable roleInfo)\<rparr>)])"
proof (cases "role_removable roleInfo")
  case True
  then have can: "(case roleInfo of None \<Rightarrow> True | Some info \<Rightarrow> \<not> 0 < length (Privileges info))"
    by (simp add: role_removable_def split: option.splits)
  show ?thesis
    using user named role can True
      decide_and_update_spec [of nx opConfig user True "Roles user"
         "h @ [GetUserCall (LdapUsername opConfig), GetRoleCall (RoleName opConfig)]"]
    by (simp add: CleanupUserRoles_def Let_def remove_role_remove1)
next
  case False
  then have can: "\<not> (case roleInfo of None \<Rightarrow> True | Some info \<Rightarrow> \<not> 0 < length (Privileges info))"
    by (simp add: role_removable_def split: option.splits)
  show ?thesis
    using user named role can False
      decide_and_update_spec [of nx opConfig user False "Roles user"
         "h @ [GetUserCall (LdapUsername opConfig), GetRoleCall (RoleName opConfig)]"]
    by (simp add: CleanupUserRoles_def Let_def)
qed

lemma CleanupUserRoles_unnamed:
  assumes user: "nexus_GetUser nx h (LdapUsername opConfig) = Inr (Some user)"
      and unnamed: "RoleName opConfig = []"
  shows "CleanupUserRoles nx opConfig h =
     (wrap_error (''cleanup user roles for '' @ quoted (LdapUsername opConfig) @ '': update user failed'')
        (nexus_UpdateUser nx (h @ [GetUserCall (LdapUsername opConfig)])
           (user\<lparr>Roles := roles_after_cleanup opConfig (Roles user) False\<rparr>)),
      h @ [GetUserCall (LdapUsername opConfig),
           UpdateUserCall (user\<lparr>Roles := roles_after_cleanup opConfig (Roles user) False\<rparr>)])"
  using user unnamed
    decide_and_update_spec [of nx opConfig user False "Roles user"
       "h @ [GetUserCall (LdapUsername opConfig)]"]
  by (simp add: CleanupUserRoles_def Let_def)

lemma CleanupRole_lookup_failed:
  "nexus_GetRole nx h (RoleName opConfig) = Inl err \<Longrightarrow>
     CleanupRole nx opConfig h =
       (Some (Wrap (''cleanup role '' @ quoted (RoleName opConfig) @ '': get role failed'') err),
        h @ [GetRoleCall (RoleName opConfig)])"
  by (simp add: CleanupRole_def Let_def)

lemma CleanupUserRoles_user_lookup_failed:
  "nexus_GetUser nx h (LdapUsername opConfig) = Inl err \<Longrightarrow>
     CleanupUserRoles nx opConfig h =
       (Some (Wrap (''cleanup user roles for '' @ quoted (LdapUsername opConfig) @
                    '': get user failed'') err),
        h @ [GetUserCall (LdapUsername opConfig)])"
  by (simp add: CleanupUserRoles_def Let_def)

lemma CleanupUserRoles_role_lookup_failed:
  "nexus_GetUser nx h (LdapUsername opConfig) = Inr (Some user) \<Longrightarrow>
   RoleName opConfig \<noteq> [] \<Longrightarrow>
   nexus_GetRole nx (h @ [GetUserCall (LdapUsername opConfig)]) (RoleName opConfig) = Inl err \<Longrightarrow>
     CleanupUserRoles nx opConfig h =
       (Some (Wrap (''cleanup user roles for '' @ quoted (LdapUsername opConfig) @
                    '': get role '' @ quoted (RoleName opConfig) @ '' failed'') err),
        h @ [GetUserCall (LdapUsername opConfig), GetRoleCall (RoleName opConfig)])"
  by (simp add: CleanupUserRoles_def Let_def)

lemma fst_wrap_error: "wrap_error context r = None \<longleftrightarrow> r = None"
  by (simp add: wrap_error_def split: option.splits)

text \<open>
  C9. In standard-mode deletion, \<open>CleanupRole\<close> fetches the role: an absent role is a
  no-op, a role with privileges is skipped, and only a present role with an empty privilege
  list is deleted (the step then succeeds exactly when the deletion does).
  \<open>CleanupUserRoles\<close> fetches the user: an absent user is a no-op; otherwise the target
  role is taken from the user's role list exactly when the role does not exist or has zero
  privileges (its first occurrence is removed), the Role Decision Engine is applied to the
  remaining list, and the user is updated with the result (the step then succeeds exactly
  when the update does). With an empty role name no role is fetched and nothing is
  removed. When a lookup fails (the role in \<open>CleanupRole\<close>; the user, or the role, in
  \<open>CleanupUserRoles\<close>) the step returns the wrapped error after the lookup and issues no
  further call: nothing is deleted and the user is not updated. These cases are all the
  answers a client can give, so the role is deleted, and taken from the user, in no other
  case.
\<close>

theorem standard_cleanup:
  fixes nx :: NexusClient and opConfig :: OperationConfig and h :: history
  defines "rn \<equiv> RoleName opConfig" and "u \<equiv> LdapUsername opConfig"
  shows "(nexus_GetRole nx h rn = Inr None \<longrightarrow>
            CleanupRole nx opConfig h = (None, h @ [GetRoleCall rn]))
       \<and> (\<forall>role. nexus_GetRole nx h rn = Inr (Some role) \<and> Privileges role \<noteq> [] \<longrightarrow>
            CleanupRole nx opConfig h = (None, h @ [GetRoleCall rn]))
       \<and> (\<forall>role. nexus_GetRole nx h rn = Inr (Some role) \<and> Privileges role = [] \<longrightarrow>
            snd (CleanupRole nx opConfig h) = h @ [GetRoleCall rn, DeleteRoleCall rn]
            \<and> (fst (CleanupRole nx opConfig h) = None \<longleftrightarrow>
                 nexus_DeleteRole nx (h @ [GetRoleCall rn]) rn = None))
       \<and> (nexus_GetUser nx h u = Inr None \<longrightarrow>
            CleanupUserRoles nx opConfig h = (None, h @ [GetUserCall u]))
       \<and> (\<forall>user roleInfo.
            nexus_GetUser nx h u = Inr (Some user) \<and> rn \<noteq> []
            \<and> nexus_GetRole nx (h @ [GetUserCall u]) rn = Inr roleInfo \<longrightarrow>
            snd (CleanupUserRoles nx opConfig h) =
              h @ [GetUserCall u, GetRoleCall rn,
                   UpdateUserCall (user\<lparr>Roles :=
                     roles_after_cleanup opConfig (Roles user) (role_removable roleInfo)\<rparr>)]
            \<and> (fst (CleanupUserRoles nx opConfig h) = None \<longleftrightarrow>
                 nexus_UpdateUser nx (h @ [GetUserCall u, GetRoleCall rn])
                   (user\<lparr>Roles :=
                     roles_after_cleanup opConfig (Roles user) (role_removable roleInfo)\<rparr>) = None))
       \<and> (\<forall>user.
            nexus_GetUser nx h u = Inr (Some user) \<and> rn = [] \<longrightarrow>
            snd (CleanupUserRoles nx opConfig h) =
              h @ [GetUserCall u,
                   UpdateUserCall (user\<lparr>Roles := roles_after_cleanup opConfig (Roles user) False\<rparr>)]
            \<and> (fst (CleanupUserRoles nx opConfig h) = None \<longleftrightarrow>
                 nexus_UpdateUser nx (h @ [GetUserCall u])
                   (user\<lparr>Roles := roles_after_cleanup opConfig (Roles user) False\<rparr>) = None))
       \<and> (\<forall>err. nexus_GetRole nx h rn = Inl err \<longrightarrow>
            CleanupRole nx opConfig h =
              (Some (Wrap (''cleanup role '' @ quoted rn @ '': get role failed'') err),
               h @ [GetRoleCall rn]))
       \<and> (\<forall>err. nexus_GetUser nx h u = Inl err \<longrightarrow>
            CleanupUserRoles nx opConfig h =
              (Some (Wrap (''cleanup user roles for '' @ quoted u @ '': get user failed'') err),
               h @ [GetUserCall u]))
       \<and> (\<forall>user err.
            nexus_GetUser nx h u = Inr (Some user) \<and> rn \<noteq> []
            \<and> nexus_GetRole nx (h @ [GetUserCall u]) rn = Inl err \<longrightarrow>
            CleanupUserRoles nx opConfig h =
              (Some (Wrap (''cleanup user roles for '' @ quoted u @ '': get role '' @
                           quoted rn @ '' failed'') err),
               h @ [GetUserCall u, GetRoleCall rn]))"
proof -
  have role_absent: "nexus_GetRole nx h (RoleName opConfig) = Inr None \<longrightarrow>
      CleanupRole nx opConfig h = (None, h @ [GetRoleCall (RoleName opConfig)])"
    by (simp add: CleanupRole_absent)
  have role_in_use: "\<forall>role. nexus_GetRole nx h (RoleName opConfig) = Inr (Some role)
        \<and> Privileges role \<noteq> [] \<longrightarrow>
      CleanupRole nx opConfig h = (None, h @ [GetRoleCall (RoleName opConfig)])"
    by (simp add: CleanupRole_in_use)
  have role_empty: "\<forall>role. nexus_GetRole nx h (RoleName opConfig) = Inr (Some role)
        \<and> Privileges role = [] \<longrightarrow>
      snd (CleanupRole nx opConfig h) =
        h @ [GetRoleCall (RoleName opConfig), DeleteRoleCall (RoleName opConfig)]
      \<and> (fst (CleanupRole nx opConfig h) = None \<longleftrightarrow>
           nexus_DeleteRole nx (h @ [GetRoleCall (RoleName opConfig)]) (RoleName opConfig) = None)"
    using CleanupRole_empty [of nx h opConfig] by blast
  have user_absent: "nexus_GetUser nx h (LdapUsername opConfig) = Inr None \<longrightarrow>
      CleanupUserRoles nx opConfig h = (None, h @ [GetUserCall (LdapUsername opConfig)])"
    by (simp add: CleanupUserRoles_absent)
  have user_present: "\<forall>user roleInfo.
      nexus_GetUser nx h (LdapUsername opConfig) = Inr (Some user) \<and> RoleName opConfig \<noteq> []
      \<and> nexus_GetRole nx (h @ [GetUserCall (LdapUsername opConfig)]) (RoleName opConfig) = Inr roleInfo \<longrightarrow>
      snd (CleanupUserRoles nx opConfig h) =
        h @ [GetUserCall (LdapUsername opConfig), GetRoleCall (RoleName opConfig),
             UpdateUserCall (user\<lparr>Roles :=
               roles_after_cleanup opConfig (Roles user) (role_removable roleInfo)\<rparr>)]
      \<and> (fst (CleanupUserRoles nx opConfig h) = None \<longleftrightarrow>
           nexus_UpdateUser nx (h @ [GetUserCall (LdapUsername opConfig), GetRoleCall (RoleName opConfig)])
             (user\<lparr>Roles :=
               roles_after_cleanup opConfig (Roles user) (role_removable roleInfo)\<rparr>) = None)"
    by (simp add: CleanupUserRoles_present fst_wrap_error)
  have unnamed: "\<forall>user.
      nexus_GetUser nx h (LdapUsername opConfig) = Inr (Some user) \<and> RoleName opConfig = [] \<longrightarrow>
      snd (CleanupUserRoles nx opConfig h) =
        h @ [GetUserCall (LdapUsername opConfig),
             UpdateUserCall (user\<lparr>Roles := roles_after_cleanup opConfig (Roles user) False\<rparr>)]
      \<and> (fst (CleanupUserRoles nx opConfig h) = None \<longleftrightarrow>
           nexus_UpdateUser nx (h @ [GetUserCall (LdapUsername opConfig)])
             (user\<lparr>Roles := roles_after_cleanup opConfig (Roles user) False\<rparr>) = None)"
    by (simp add: CleanupUserRoles_unnamed fst_wrap_error)
  have role_failed: "\<forall>err. nexus_GetRole nx h (RoleName opConfig) = Inl err \<longrightarrow>
      CleanupRole nx opConfig h =
        (Some (Wrap (''cleanup role '' @ quoted (RoleName opConfig) @ '': get role failed'') err),
         h @ [GetRoleCall (RoleName opConfig)])"
    by (simp add: CleanupRole_lookup_failed)
  have user_failed: "\<forall>err. nexus_GetUser nx h (LdapUsername opConfig) = Inl err \<longrightarrow>
      CleanupUserRoles nx opConfig h =
        (Some (Wrap (''cleanup user roles for '' @ quoted (LdapUsername opConfig) @
                     '': get user failed'') err),
         h @ [GetUserCall (LdapUsername opConfig)])"
    by (simp add: CleanupUserRoles_user_lookup_failed)
  have user_role_failed: "\<forall>user err.
      nexus_GetUser nx h (LdapUsername opConfig) = Inr (Some user) \<and> RoleName opConfig \<noteq> []
      \<and> nexus_GetRole nx (h @ [GetUserCall (LdapUsername opConfig)]) (RoleName opConfig) = Inl err \<longrightarrow>
      CleanupUserRoles nx opConfig h =
        (Some (Wrap (''cleanup user roles for '' @ quoted (LdapUsername opConfig) @
                     '': get role '' @ quoted (RoleName opConfig) @ '' failed'') err),
         h @ [GetUserCall (LdapUsername opConfig), GetRoleCall (RoleName opConfig)])"
    by (simp add: CleanupUserRoles_role_lookup_failed)
  show ?thesis
    unfolding rn_def u_def
    using role_absent role_in_use role_empty user_absent user_present unnamed
      role_failed user_failed user_role_failed
    by (intro conjI)
qed


theorem standard_cleanup_witness:
  "CleanupRole (ScriptedClient (cleanup_script []))
     (example_opConfig ''delete'' ''app-user'' ''app-role'' False ''app-9'') [] =
     (None, [GetRoleCall ''app-role'', DeleteRoleCall ''app-role''])
   \<and> CleanupUserRoles (ScriptedClient (cleanup_script []))
     (example_opConfig ''delete'' ''app-user'' ''app-role'' False ''app-9'') [] =
     (None, [GetUserCall ''app-user'', GetRoleCall ''app-role'',
             UpdateUserCall (example_user ''app-user'' [''base-role''])])
   \<and> CleanupRole (ScriptedClient (cleanup_script [''npm-release-other'']))
     (example_opConfig ''delete'' ''app-user'' ''app-role'' False ''app-9'') [] =
     (None, [GetRoleCall ''app-role''])
   \<and> CleanupUserRoles (ScriptedClient (cleanup_script [''npm-release-other'']))
     (example_opConfig ''delete'' ''app-user'' ''app-role'' False ''app-9'') [] =
     (None, [GetUserCall ''app-user'', GetRoleCall ''app-role'',
             UpdateUserCall (example_user ''app-user'' [''base-role'', ''app-role'', ''extra-role''])])
   \<and> CleanupRole (ScriptedClient empty_script)
     (example_opConfig ''delete'' ''app-user'' ''app-role'' False ''app-9'') [] =
     (None, [GetRoleCall ''app-role''])
   \<and> CleanupUserRoles (ScriptedClient empty_script)
     (example_opConfig ''delete'' ''app-user'' ''app-role'' False ''app-9'') [] =
     (None, [GetUserCall ''app-user''])
   \<and> CleanupRole (ScriptedClient ((cleanup_script [])\<lparr>failing := [GetRoleCall ''app-role'']\<rparr>))
     (example_opConfig ''delete'' ''app-user'' ''app-role'' False ''app-9'') [] =
     (Some (Wrap (''cleanup role '' @ quoted ''app-role'' @ '': get role failed'')
              (HTTPError 500 ''unavailable'')),
      [GetRoleCall ''app-role''])
   \<and> CleanupUserRoles (ScriptedClient ((cleanup_script [])\<lparr>failing := [GetRoleCall ''app-role'']\<rparr>))
     (example_opConfig ''delete'' ''app-user'' ''app-role'' False ''app-9'') [] =
     (Some (Wrap (''cleanup user roles for '' @ quoted ''app-user'' @ '': get role '' @
                  quoted ''app-role'' @ '' failed'') (HTTPError 500 ''unavailable'')),
      [GetUserCall ''app-user'', GetRoleCall ''app-role''])
   \<and> CleanupUserRoles (ScriptedClient ((cleanup_script [])\<lparr>failing := [GetUserCall ''app-user'']\<rparr>))
     (example_opConfig ''delete'' ''app-user'' ''app-role'' False ''app-9'') [] =
     (Some (Wrap (''cleanup user roles for '' @ quoted ''app-user'' @ '': get user failed'')
              (HTTPError 500 ''unavailable'')),
      [GetUserCall ''app-user''])"
proof -
  let ?cfg = "example_opConfig ''delete'' ''app-user'' ''app-role'' False ''app-9''"
  let ?user = "example_user ''app-user'' [''app-role'', ''extra-role'', ''base-role'']"
  have names: "RoleName ?cfg = ''app-role''" "LdapUsername ?cfg = ''app-user''"
    by (simp_all add: example_opConfig_def)
  have role: "nexus_GetRole (ScriptedClient (cleanup_script privs)) h ''app-role'' =
      Inr (Some (example_role ''app-role'' privs))" for privs h
    by (simp add: ScriptedClient_def cleanup_script_def lookup_answer_def example_role_def)
  have user: "nexus_GetUser (ScriptedClient (cleanup_script privs)) h ''app-user'' = Inr (Some ?user)"
    for privs h
    by (simp add: ScriptedClient_def cleanup_script_def lookup_answer_def example_user_def)
  have ok: "nexus_DeleteRole (ScriptedClient (cleanup_script privs)) h r = None"
      "nexus_UpdateUser (ScriptedClient (cleanup_script privs)) h u = None" for privs h r u
    by (simp_all add: ScriptedClient_def cleanup_script_def action_answer_def)
  have none: "nexus_GetRole (ScriptedClient empty_script) h ''app-role'' = Inr None"
      "nexus_GetUser (ScriptedClient empty_script) h ''app-user'' = Inr None" for h
    by (simp_all add: ScriptedClient_def empty_script_def lookup_answer_def)
  have final_a: "roles_after_cleanup ?cfg (Roles ?user) (role_removable (Some (example_role ''app-role'' [])))
      = [''base-role'']"
    by (simp add: roles_after_cleanup_def role_removable_def example_role_def example_user_def
          example_opConfig_def DecideFinalRoles_def HasOtherRoles_def SetAfterRemovalRoles_def
          NewRoleDecisionEngine_def)
  have final_b: "roles_after_cleanup ?cfg (Roles ?user)
        (role_removable (Some (example_role ''app-role'' [''npm-release-other''])))
      = [''base-role'', ''app-role'', ''extra-role'']"
    by (simp add: roles_after_cleanup_def role_removable_def example_role_def example_user_def
          example_opConfig_def DecideFinalRoles_def HasOtherRoles_def SetAfterRemovalRoles_def
          NewRoleDecisionEngine_def)
  note a = standard_cleanup [of "ScriptedClient (cleanup_script [])" "[]" ?cfg, unfolded names]
  note b = standard_cleanup [of "ScriptedClient (cleanup_script [''npm-release-other''])" "[]" ?cfg,
              unfolded names]
  note c = standard_cleanup [of "ScriptedClient empty_script" "[]" ?cfg, unfolded names]
  have a1: "CleanupRole (ScriptedClient (cleanup_script [])) ?cfg [] =
      (None, [GetRoleCall ''app-role'', DeleteRoleCall ''app-role''])"
    using a [THEN conjunct2, THEN conjunct2, THEN conjunct1, THEN spec,
             of "example_role ''app-role'' []"]
    by (simp add: role ok example_role_def prod_eq_iff)
  have a2: "CleanupUserRoles (ScriptedClient (cleanup_script [])) ?cfg [] =
     (None, [GetUserCall ''app-user'', GetRoleCall ''app-role'',
             UpdateUserCall (example_user ''app-user'' [''base-role''])])"
    using a [THEN conjunct2, THEN conjunct2, THEN conjunct2, THEN conjunct2, THEN conjunct1,
             THEN spec, THEN spec,
             of ?user "Some (example_role ''app-role'' [])"]
    by (simp add: role user ok final_a prod_eq_iff) (simp add: example_user_def)
  have b1: "CleanupRole (ScriptedClient (cleanup_script [''npm-release-other''])) ?cfg [] =
      (None, [GetRoleCall ''app-role''])"
    using b [THEN conjunct2, THEN conjunct1, THEN spec,
             of "example_role ''app-role'' [''npm-release-other'']"]
    by (simp add: role example_role_def)
  have b2: "CleanupUserRoles (ScriptedClient (cleanup_script [''npm-release-other''])) ?cfg [] =
     (None, [GetUserCall ''app-user'', GetRoleCall ''app-role'',
             UpdateUserCall (example_user ''app-user'' [''base-role'', ''app-role'', ''extra-role''])])"
    using b [THEN conjunct2, THEN conjunct2, THEN conjunct2, THEN conjunct2, THEN conjunct1,
             THEN spec, THEN spec,
             of ?user "Some (example_role ''app-role'' [''npm-release-other''])"]
    by (simp add: role user ok final_b prod_eq_iff) (simp add: example_user_def)
  have c1: "CleanupRole (ScriptedClient empty_script) ?cfg [] = (None, [GetRoleCall ''app-role''])"
    using c [THEN conjunct1] by (simp add: none)
  have c2: "CleanupUserRoles (ScriptedClient empty_script) ?cfg [] = (None, [GetUserCall ''app-user''])"
    using c [THEN conjunct2, THEN conjunct2, THEN conjunct2, THEN conjunct1] by (simp add: none)
  let ?no_role = "ScriptedClient ((cleanup_script [])\<lparr>failing := [GetRoleCall ''app-role'']\<rparr>)"
  let ?no_user = "ScriptedClient ((cleanup_script [])\<lparr>failing := [GetUserCall ''app-user'']\<rparr>)"
  have role_down: "nexus_GetRole ?no_role h ''app-role'' = Inl (HTTPError 500 ''unavailable'')" for h
    by (simp add: ScriptedClient_def cleanup_script_def lookup_answer_def)
  have user_up: "nexus_GetUser ?no_role h ''app-user'' = Inr (Some ?user)" for h
    by (simp add: ScriptedClient_def cleanup_script_def lookup_answer_def example_user_def)
  have user_down: "nexus_GetUser ?no_user h ''app-user'' = Inl (HTTPError 500 ''unavailable'')" for h
    by (simp add: ScriptedClient_def cleanup_script_def lookup_answer_def)
  note d = standard_cleanup [of ?no_role "[]" ?cfg, unfolded names]
  note e = standard_cleanup [of ?no_user "[]" ?cfg, unfolded names]
  have d1: "CleanupRole ?no_role ?cfg [] =
     (Some (Wrap (''cleanup role '' @ quoted ''app-role'' @ '': get role failed'')
              (HTTPError 500 ''unavailable'')),
      [GetRoleCall ''app-role''])"
    using d [THEN conjunct2, THEN conjunct2, THEN conjunct2, THEN conjunct2, THEN conjunct2,
             THEN conjunct2, THEN conjunct1, THEN spec, THEN mp, OF role_down]
    by simp
  have d2: "CleanupUserRoles ?no_role ?cfg [] =
     (Some (Wrap (''cleanup user roles for '' @ quoted ''app-user'' @ '': get role '' @
                  quoted ''app-role'' @ '' failed'') (HTTPError 500 ''unavailable'')),
      [GetUserCall ''app-user'', GetRoleCall ''app-role''])"
    using d [THEN conjunct2, THEN conjunct2, THEN conjunct2, THEN conjunct2, THEN conjunct2,
             THEN conjunct2, THEN conjunct2, THEN conjunct2, THEN spec, THEN spec,
             of ?user "HTTPError 500 ''unavailable''"]
    by (simp add: user_up role_down)
  have e1: "CleanupUserRoles ?no_user ?cfg [] =
     (Some (Wrap (''cleanup user roles for '' @ quoted ''app-user'' @ '': get user failed'')
              (HTTPError 500 ''unavailable'')),
      [GetUserCall ''app-user''])"
    using e [THEN conjunct2, THEN conjunct2, THEN conjunct2, THEN conjunct2, THEN conjunct2,
             THEN conjunct2, THEN conjunct2, THEN conjunct1, THEN spec, THEN mp, OF user_down]
    by simp
  show ?thesis
    using a1 a2 b1 b2 c1 c2 d1 d2 e1 by blast
qed


section \<open>Properties of the creation workflow\<close>

text \<open>
  C10. In \<open>CreateRepository\<close> and \<open>CreatePrivilege\<close> any error of the existence lookup,
  whatever its kind, leads to a creation attempt; the step then fails exactly when the
  creation call fails, so a failed lookup alone never fails the step. When the lookup
  succeeds the step returns success and no creation call is issued.
\<close>

theorem lookup_error_means_absent:
  fixes nx :: NexusClient and opConfig :: OperationConfig and h :: history
  defines "repo \<equiv> RepositoryName opConfig" and "priv \<equiv> PrivilegeName opConfig"
  shows "(\<forall>lookupErr. nexus_GetRepository nx h repo = Inl lookupErr \<longrightarrow>
            snd (CreateRepository nx opConfig h) =
              h @ [GetRepositoryCall repo, CreateProxyRepositoryCall opConfig]
            \<and> (fst (CreateRepository nx opConfig h) = None \<longleftrightarrow>
                 nexus_CreateProxyRepository nx (h @ [GetRepositoryCall repo]) opConfig = None))
       \<and> (\<forall>found. nexus_GetRepository nx h repo = Inr found \<longrightarrow>
            CreateRepository nx opConfig h = (None, h @ [GetRepositoryCall repo]))
       \<and> (\<forall>lookupErr. nexus_GetPrivilege nx h priv = Inl lookupErr \<longrightarrow>
            snd (CreatePrivilege nx opConfig h) =
              h @ [GetPrivilegeCall priv, CreatePrivilegeCall opConfig]
            \<and> (fst (CreatePrivilege nx opConfig h) = None \<longleftrightarrow>
                 nexus_CreatePrivilege nx (h @ [GetPrivilegeCall priv]) opConfig = None))
       \<and> (\<forall>found. nexus_GetPrivilege nx h priv = Inr found \<longrightarrow>
            CreatePrivilege nx opConfig h = (None, h @ [GetPrivilegeCall priv]))"
  unfolding repo_def priv_def
  by (simp add: CreateRepository_def CreatePrivilege_def Let_def wrap_error_def split: option.splits)


theorem lookup_error_means_absent_witness:
  "CreateRepository (ScriptedClient creation_script)
     (example_opConfig ''create'' ''app-user'' ''app-user'' False ''app-9'') [] =
     (None, [GetRepositoryCall ''npm-release-app-9''])
   \<and> CreatePrivilege (ScriptedClient creation_script)
     (example_opConfig ''create'' ''app-user'' ''app-user'' False ''app-9'') [] =
     (None, [GetPrivilegeCall ''npm-release-app-9'',
             CreatePrivilegeCall (example_opConfig ''create'' ''app-user'' ''app-user'' False ''app-9'')])
   \<and> snd (CreateRepository (ScriptedClient refusing_script)
     (example_opConfig ''create'' ''app-user'' ''app-user'' False ''app-9'') []) =
     [GetRepositoryCall ''npm-release-app-9'',
      CreateProxyRepositoryCall (example_opConfig ''create'' ''app-user'' ''app-user'' False ''app-9'')]
   \<and> fst (CreateRepository (ScriptedClient refusing_script)
     (example_opConfig ''create'' ''app-user'' ''app-user'' False ''app-9'') []) \<noteq> None"
proof -
  let ?cfg = "example_opConfig ''create'' ''app-user'' ''app-user'' False ''app-9''"
  have names: "RepositoryName ?cfg = ''npm-release-app-9''" "PrivilegeName ?cfg = ''npm-release-app-9''"
    by (simp_all add: example_opConfig_def)
  have found: "nexus_GetRepository (ScriptedClient creation_script) h ''npm-release-app-9'' =
      Inr (Some (example_repository ''npm-release-app-9''))" for h
    by (simp add: ScriptedClient_def creation_script_def strict_answer_def example_repository_def)
  have unavailable: "nexus_GetPrivilege (ScriptedClient creation_script) h ''npm-release-app-9'' =
      Inl (HTTPError 500 ''unavailable'')" for h
    by (simp add: ScriptedClient_def creation_script_def strict_answer_def)
  have created: "nexus_CreatePrivilege (ScriptedClient creation_script) h c = None" for h c
    by (simp add: ScriptedClient_def creation_script_def action_answer_def)
  have missing: "nexus_GetRepository (ScriptedClient refusing_script) h ''npm-release-app-9'' =
      Inl (Wrap ''get'' (HTTPError 404 ''not found''))" for h
    by (simp add: ScriptedClient_def refusing_script_def strict_answer_def)
  have refused: "nexus_CreateProxyRepository (ScriptedClient refusing_script) h ?cfg =
      Some (HTTPError 500 ''unavailable'')" for h
    by (simp add: ScriptedClient_def refusing_script_def action_answer_def)
  note a = lookup_error_means_absent [of "ScriptedClient creation_script" "[]" ?cfg, unfolded names]
  note b = lookup_error_means_absent [of "ScriptedClient refusing_script" "[]" ?cfg, unfolded names]
  have a1: "CreateRepository (ScriptedClient creation_script) ?cfg [] =
      (None, [GetRepositoryCall ''npm-release-app-9''])"
    using a [THEN conjunct2, THEN conjunct1, THEN spec, THEN mp, OF found] by simp
  have a2: "CreatePrivilege (ScriptedClient creation_script) ?cfg [] =
      (None, [GetPrivilegeCall ''npm-release-app-9'', CreatePrivilegeCall ?cfg])"
    using a [THEN conjunct2, THEN conjunct2, THEN conjunct1, THEN spec, THEN mp, OF unavailable]
    by (simp add: created prod_eq_iff)
  have b1: "snd (CreateRepository (ScriptedClient refusing_script) ?cfg []) =
      [GetRepositoryCall ''npm-release-app-9'', CreateProxyRepositoryCall ?cfg]
      \<and> fst (CreateRepository (ScriptedClient refusing_script) ?cfg []) \<noteq> None"
    using b [THEN conjunct1, THEN spec, THEN mp, OF missing] by (simp add: refused)
  show ?thesis
    using a1 a2 b1 by blast
qed



end
